theory Spec2Isabelle
  imports Main "HOL-Library.Word" "HOL-Library.Sublist" "HOL-Library.AList"
begin

unbundle bit_operations_syntax

section \<open>The peer API of a Tailscale node (package ipnlocal, peerapi.go)\<close>

text \<open>
  A Go \<open>string\<close> is a sequence of bytes, and so is a HOL \<open>string\<close> (a list of
  \<open>char\<close>, each one byte).  A rune (Go's \<open>int32\<close>) is modelled as an \<open>int\<close>.
  Functions of the Go standard library that the peer API calls are written out below
  from their documented behaviour on Unix-like systems, under their Go names (with the
  package in front where the name alone says too little).  The only part taken as a parameter is \<open>unicode.IsPrint\<close>,
  whose answer comes from the Unicode tables: it is the argument \<open>IsPrint\<close> of
  every function that needs it.
\<close>

subsection \<open>Package strings\<close>

definition HasPrefix :: "string \<Rightarrow> string \<Rightarrow> bool" where
  "HasPrefix s pre = prefix pre s"

definition HasSuffix :: "string \<Rightarrow> string \<Rightarrow> bool" where
  "HasSuffix s suf = suffix suf s"

definition Contains :: "string \<Rightarrow> string \<Rightarrow> bool" where
  "Contains s substr = sublist substr s"

definition TrimPrefix :: "string \<Rightarrow> string \<Rightarrow> string" where
  "TrimPrefix s pre = (if HasPrefix s pre then drop (length pre) s else s)"

subsection \<open>Package unicode/utf8\<close>

definition RuneError :: int where
  "RuneError = 0xFFFD"

text \<open>
  \<open>utf8.DecodeRuneInString\<close>: the first rune of the string and its width in bytes.
  An empty string gives \<open>(RuneError, 0)\<close>, a malformed encoding \<open>(RuneError, 1)\<close>.
  The second byte of a sequence has the narrower range that excludes overlong forms,
  surrogates and values above U+10FFFF.
\<close>

definition contb :: "int \<Rightarrow> bool" where
  "contb b = (0x80 \<le> b \<and> b \<le> 0xBF)"

definition DecodeRuneInString :: "string \<Rightarrow> int \<times> nat" where
  "DecodeRuneInString s =
     (case map of_char s of
        [] \<Rightarrow> (RuneError, 0)
      | s0 # t \<Rightarrow>
          if s0 < 0x80 then (s0, 1)
          else if s0 < 0xC2 \<or> 0xF4 < s0 then (RuneError, 1)
          else
            let sz = (if s0 < 0xE0 then 2 else if s0 < 0xF0 then 3 else (4::nat));
                lo = (if s0 = 0xE0 then 0xA0 else if s0 = 0xF0 then 0x90 else (0x80::int));
                hi = (if s0 = 0xED then 0x9F else if s0 = 0xF4 then 0x8F else (0xBF::int))
            in (case t of
                  [] \<Rightarrow> (RuneError, 1)
                | s1 # t1 \<Rightarrow>
                    if length s < sz then (RuneError, 1)
                    else if s1 < lo \<or> hi < s1 then (RuneError, 1)
                    else if sz \<le> 2 then ((s0 mod 0x20) * 0x40 + s1 mod 0x40, 2)
                    else (case t1 of
                            [] \<Rightarrow> (RuneError, 1)
                          | s2 # t2 \<Rightarrow>
                              if \<not> contb s2 then (RuneError, 1)
                              else if sz \<le> 3 then
                                ((s0 mod 0x10) * 0x1000 + (s1 mod 0x40) * 0x40 + s2 mod 0x40, 3)
                              else (case t2 of
                                      [] \<Rightarrow> (RuneError, 1)
                                    | s3 # t3 \<Rightarrow>
                                        if \<not> contb s3 then (RuneError, 1)
                                        else ((s0 mod 0x08) * 0x40000 + (s1 mod 0x40) * 0x1000
                                                + (s2 mod 0x40) * 0x40 + s3 mod 0x40, 4)))))"

lemma DecodeRuneInString_width: "s \<noteq> [] \<Longrightarrow> 1 \<le> snd (DecodeRuneInString s)"
  by (cases s) (simp_all add: DecodeRuneInString_def Let_def split: list.splits)

text \<open>
  The runes of a string in order, each with the bytes that encode it: what a
  \<open>for _, r := range s\<close> loop visits.  A malformed byte is visited as \<open>RuneError\<close>
  of width 1.
\<close>

function decode :: "string \<Rightarrow> (int \<times> string) list" where
  "decode s =
     (if s = [] then []
      else let (r, size) = DecodeRuneInString s
           in (r, take size s) # decode (drop size s))"
  by pat_completeness auto
termination
proof (relation "measure length")
  show "wf (measure length)" by simp
next
  fix s :: string and x :: "int \<times> nat" and r :: int and size :: nat
  assume ne: "s \<noteq> []" and x: "x = DecodeRuneInString s" and rs: "(r, size) = x"
  from DecodeRuneInString_width [OF ne] x rs have "1 \<le> size"
    by (metis snd_conv)
  with ne show "(drop size s, s) \<in> measure length"
    by (cases s) simp_all
qed

declare decode.simps [simp del]

definition runes :: "string \<Rightarrow> int list" where
  "runes s = map fst (decode s)"

text \<open>\<open>utf8.ValidString\<close>: the string consists entirely of well-formed runes.\<close>

definition ValidString :: "string \<Rightarrow> bool" where
  "ValidString s = list_all (\<lambda>(r, enc). \<not> (r = RuneError \<and> length enc = 1)) (decode s)"

subsection \<open>Package unicode and strings.TrimSpace\<close>

text \<open>\<open>unicode.IsSpace\<close>: the code points with the Unicode property White_Space.\<close>

definition IsSpace :: "int \<Rightarrow> bool" where
  "IsSpace r =
     (r = 0x09 \<or> r = 0x0A \<or> r = 0x0B \<or> r = 0x0C \<or> r = 0x0D \<or> r = 0x20
      \<or> r = 0x85 \<or> r = 0xA0 \<or> r = 0x1680 \<or> (0x2000 \<le> r \<and> r \<le> 0x200A)
      \<or> r = 0x2028 \<or> r = 0x2029 \<or> r = 0x202F \<or> r = 0x205F \<or> r = 0x3000)"

text \<open>\<open>strings.TrimSpace\<close>: the string without its leading and trailing white space.\<close>

definition TrimSpace :: "string \<Rightarrow> string" where
  "TrimSpace s =
     concat (map snd
       (rev (dropWhile (\<lambda>(r, enc). IsSpace r)
          (rev (dropWhile (\<lambda>(r, enc). IsSpace r) (decode s))))))"

subsection \<open>Packages path and path/filepath\<close>

text \<open>
  \<open>path.Clean\<close> reads the path from the left and writes the cleaned path into a
  buffer \<open>out\<close>; \<open>dotdot\<close> is the length of the part of \<open>out\<close> that a
  \<open>..\<close> element must not remove.  Backtracking over one element removes bytes from
  the end of \<open>out\<close> until the byte just removed is a slash or \<open>dotdot\<close> is reached.
\<close>

function backtrack :: "nat \<Rightarrow> string \<Rightarrow> string" where
  "backtrack dotdot out =
     (if out = [] then []
      else if dotdot < length (butlast out) \<and> last out \<noteq> CHR ''/''
        then backtrack dotdot (butlast out)
        else butlast out)"
  by pat_completeness auto
termination
  by (relation "measure (\<lambda>(dotdot, out). length out)") (auto simp: less_Suc_eq_le)

declare backtrack.simps [simp del]

function clean_loop :: "bool \<Rightarrow> string \<Rightarrow> string \<Rightarrow> nat \<Rightarrow> string" where
  "clean_loop rooted rest out dotdot =
     (case rest of
        [] \<Rightarrow> out
      | c # t \<Rightarrow>
          if c = CHR ''/'' then clean_loop rooted t out dotdot
          else if c = CHR ''.'' \<and> (t = [] \<or> take 1 t = ''/'') then
            clean_loop rooted t out dotdot
          else if c = CHR ''.'' \<and> take 1 t = ''.'' \<and> (drop 1 t = [] \<or> take 1 (drop 1 t) = ''/'') then
            (if dotdot < length out then
               clean_loop rooted (drop 1 t) (backtrack dotdot out) dotdot
             else if \<not> rooted then
               (let out' = (if 0 < length out then out @ ''/'' else out) @ ''..''
                in clean_loop rooted (drop 1 t) out' (length out'))
             else clean_loop rooted (drop 1 t) out dotdot)
          else
            (let out' = (if rooted \<and> length out \<noteq> 1 \<or> \<not> rooted \<and> length out \<noteq> 0
                         then out @ ''/'' else out)
             in clean_loop rooted (dropWhile (\<lambda>b. b \<noteq> CHR ''/'') rest)
                  (out' @ takeWhile (\<lambda>b. b \<noteq> CHR ''/'') rest) dotdot))"
  by pat_completeness auto
termination
  by (relation "measure (\<lambda>(rooted, rest, out, dotdot). length rest)")
    (auto intro: le_imp_less_Suc length_dropWhile_le)

declare clean_loop.simps [simp del]

definition Clean :: "string \<Rightarrow> string" where
  "Clean p =
     (if p = [] then ''.''
      else
        let rooted = (take 1 p = ''/'');
            out = (if rooted then clean_loop True (drop 1 p) ''/'' 1
                   else clean_loop False p [] 0)
        in if out = [] then ''.'' else out)"

text \<open>
  \<open>filepath.Join\<close> where the separator is the slash: the elements from the first
  non-empty one on, joined by slashes and cleaned; the empty string when every element
  is empty.
\<close>

fun join_sep :: "string list \<Rightarrow> string" where
  "join_sep [] = []"
| "join_sep [e] = e"
| "join_sep (e # es) = e @ ''/'' @ join_sep es"

definition filepath_Join :: "string list \<Rightarrow> string" where
  "filepath_Join elem =
     (case dropWhile (\<lambda>e. e = []) elem of
        [] \<Rightarrow> []
      | es \<Rightarrow> Clean (join_sep es))"

subsection \<open>Packages net/url, html, strconv, net and hash/crc32\<close>

datatype errno = ENOENT | EISDIR | ENOTDIR | ENOTEMPTY | EACCES | ENOSPC | EIO

text \<open>
  Go errors: \<open>errors.New\<close>, \<open>*os.PathError\<close> (operation, path, cause), \<open>io.EOF\<close>,
  \<open>io.ErrShortWrite\<close>, \<open>io.ErrUnexpectedEOF\<close> and \<open>url.EscapeError\<close>.
\<close>

datatype error =
    errorString string
  | PathError string string errno
  | EOF
  | ErrShortWrite
  | ErrUnexpectedEOF
  | EscapeError string

definition errno_Error :: "errno \<Rightarrow> string" where
  "errno_Error e =
     (case e of
        ENOENT \<Rightarrow> ''no such file or directory''
      | EISDIR \<Rightarrow> ''is a directory''
      | ENOTDIR \<Rightarrow> ''not a directory''
      | ENOTEMPTY \<Rightarrow> ''directory not empty''
      | EACCES \<Rightarrow> ''permission denied''
      | ENOSPC \<Rightarrow> ''no space left on device''
      | EIO \<Rightarrow> ''input/output error'')"

definition error_Error :: "error \<Rightarrow> string" where
  "error_Error err =
     (case err of
        errorString m \<Rightarrow> m
      | PathError op path e \<Rightarrow> op @ '' '' @ path @ '': '' @ errno_Error e
      | EOF \<Rightarrow> ''EOF''
      | ErrShortWrite \<Rightarrow> ''short write''
      | ErrUnexpectedEOF \<Rightarrow> ''unexpected EOF''
      | EscapeError m \<Rightarrow> ''invalid URL escape '' @ [CHR 0x22] @ m @ [CHR 0x22])"

definition os_IsNotExist :: "error \<Rightarrow> bool" where
  "os_IsNotExist err = (case err of PathError op path ENOENT \<Rightarrow> True | _ \<Rightarrow> False)"

definition ishex :: "char \<Rightarrow> bool" where
  "ishex c =
     (let x = (of_char c :: nat)
      in 48 \<le> x \<and> x \<le> 57 \<or> 97 \<le> x \<and> x \<le> 102 \<or> 65 \<le> x \<and> x \<le> 70)"

definition unhex :: "char \<Rightarrow> nat" where
  "unhex c =
     (let x = (of_char c :: nat)
      in if 48 \<le> x \<and> x \<le> 57 then x - 48
         else if 97 \<le> x \<and> x \<le> 102 then x - 97 + 10
         else if 65 \<le> x \<and> x \<le> 70 then x - 65 + 10
         else 0)"

text \<open>
  \<open>url.PathUnescape\<close>: every \<open>%XY\<close> becomes the byte with hexadecimal digits
  \<open>XY\<close>; a percent sign that is not followed by two hexadecimal digits is an error;
  every other byte, the plus sign too, stays.
\<close>

fun PathUnescape :: "string \<Rightarrow> error + string" where
  "PathUnescape [] = Inr []"
| "PathUnescape (c # cs) =
     (if c = CHR ''%'' then
        (case cs of
           x # y # rest \<Rightarrow>
             if ishex x \<and> ishex y then
               (case PathUnescape rest of
                  Inl err \<Rightarrow> Inl err
                | Inr t \<Rightarrow> Inr (char_of (unhex x * 16 + unhex y) # t))
             else Inl (EscapeError (take 3 (c # cs)))
         | _ \<Rightarrow> Inl (EscapeError (take 3 (c # cs))))
      else
        (case PathUnescape cs of
           Inl err \<Rightarrow> Inl err
         | Inr t \<Rightarrow> Inr (c # t)))"

text \<open>\<open>html.EscapeString\<close> replaces the five characters that HTML reserves.\<close>

definition escape_char :: "char \<Rightarrow> string" where
  "escape_char c =
     (if c = CHR ''&'' then ''&amp;''
      else if c = CHR 0x27 then ''&#39;''
      else if c = CHR ''<'' then ''&lt;''
      else if c = CHR ''>'' then ''&gt;''
      else if c = CHR 0x22 then ''&#34;''
      else [c])"

definition EscapeString :: "string \<Rightarrow> string" where
  "EscapeString s = concat (map escape_char s)"

text \<open>\<open>strconv.Itoa\<close> on a number that is not negative: its decimal digits.\<close>

function digits :: "nat \<Rightarrow> string" where
  "digits n = (if n < 10 then [char_of (48 + n)] else digits (n div 10) @ [char_of (48 + n mod 10)])"
  by pat_completeness auto
termination
  by (relation "measure id") auto

declare digits.simps [simp del]

definition Itoa :: "nat \<Rightarrow> string" where
  "Itoa n = digits n"

definition JoinHostPort :: "string \<Rightarrow> string \<Rightarrow> string" where
  "JoinHostPort host port =
     (if CHR '':'' \<in> set host then ''['' @ host @ '']:'' @ port else host @ '':'' @ port)"

text \<open>
  \<open>crc32.ChecksumIEEE\<close>, as the byte-at-a-time implementation of the package computes
  it: a table entry is the byte shifted through the reflected polynomial eight times.
\<close>

definition crc_shift :: "32 word \<Rightarrow> 32 word" where
  "crc_shift crc = (if crc AND 1 = 1 then drop_bit 1 crc XOR 0xEDB88320 else drop_bit 1 crc)"

definition crc_table :: "8 word \<Rightarrow> 32 word" where
  "crc_table i = (crc_shift ^^ 8) (ucast i)"

definition crc_update :: "32 word \<Rightarrow> 8 word \<Rightarrow> 32 word" where
  "crc_update crc v = crc_table (ucast crc XOR v) XOR drop_bit 8 crc"

definition ChecksumIEEE :: "8 word list \<Rightarrow> 32 word" where
  "ChecksumIEEE data = NOT (foldl crc_update (NOT 0) data)"

subsection \<open>The file system\<close>

text \<open>
  The file system holds regular files, each with its content, and directories, under
  the path strings that the program passes to package \<open>os\<close>.  It is an association
  list: \<open>map_of\<close> looks a path up, the order is the order in which a directory is read.
  Symbolic links, devices and permissions are outside the model; an operation that can
  fail for a reason the model does not hold (permissions, a full disk, a failing medium)
  takes that failure as an argument.
\<close>

datatype node = Regular string | Directory

type_synonym fs = "(string \<times> node) list"

definition last_elem :: "string \<Rightarrow> string" where
  "last_elem p = rev (takeWhile (\<lambda>c. c \<noteq> CHR ''/'') (rev p))"

text \<open>A path is an entry of a directory when joining the directory and its last element gives it back.\<close>

definition is_child :: "string \<Rightarrow> string \<Rightarrow> bool" where
  "is_child dir p =
     (let e = last_elem p
      in e \<noteq> [] \<and> e \<noteq> ''.'' \<and> e \<noteq> ''..'' \<and> filepath_Join [dir, e] = p)"

text \<open>A directory entry, \<open>fs.DirEntry\<close>: the name and the node it names.\<close>

type_synonym DirEntry = "string \<times> node"

definition Name :: "DirEntry \<Rightarrow> string" where
  "Name de = fst de"

definition IsRegular :: "DirEntry \<Rightarrow> bool" where
  "IsRegular de = (case snd de of Regular c \<Rightarrow> True | Directory \<Rightarrow> False)"

definition dir_entries :: "fs \<Rightarrow> string \<Rightarrow> DirEntry list" where
  "dir_entries files dir =
     List.map_filter
       (\<lambda>p. if is_child dir p then map_option (\<lambda>nd. (last_elem p, nd)) (map_of files p) else None)
       (remdups (map fst files))"

text \<open>
  \<open>os.Create\<close> makes an empty regular file or truncates the one that is there.  It
  fails on a directory, and with the cause \<open>fault\<close> when one is given.
\<close>

definition os_Create :: "errno option \<Rightarrow> fs \<Rightarrow> string \<Rightarrow> error + fs" where
  "os_Create fault files path =
     (case fault of
        Some e \<Rightarrow> Inl (PathError ''open'' path e)
      | None \<Rightarrow>
          (case map_of files path of
             Some Directory \<Rightarrow> Inl (PathError ''open'' path EISDIR)
           | _ \<Rightarrow> Inr (AList.update path (Regular []) files)))"

text \<open>
  \<open>os.Remove\<close> removes a regular file or an empty directory; the error is not-exist
  when nothing is at the path.
\<close>

definition os_Remove :: "fs \<Rightarrow> string \<Rightarrow> error option \<times> fs" where
  "os_Remove files path =
     (case map_of files path of
        None \<Rightarrow> (Some (PathError ''remove'' path ENOENT), files)
      | Some (Regular c) \<Rightarrow> (None, AList.delete path files)
      | Some Directory \<Rightarrow>
          if dir_entries files path = [] then (None, AList.delete path files)
          else (Some (PathError ''remove'' path ENOTEMPTY), files))"

text \<open>
  An open file is the path it was opened under and the node found there.  \<open>Stat\<close> on it
  gives the length of a regular file (the size of a directory depends on the system; it
  is 0 here and no property reads it).  Reading a regular file to its end gives its
  content.
\<close>

record os_File =
  fpath :: string
  fnode :: node

definition os_Open :: "fs \<Rightarrow> string \<Rightarrow> error + os_File" where
  "os_Open files path =
     (case map_of files path of
        None \<Rightarrow> Inl (PathError ''open'' path ENOENT)
      | Some nd \<Rightarrow> Inr \<lparr>fpath = path, fnode = nd\<rparr>)"

definition File_Stat_Size :: "os_File \<Rightarrow> error + int" where
  "File_Stat_Size f = (case fnode f of Regular c \<Rightarrow> Inr (int (length c)) | Directory \<Rightarrow> Inr 0)"

definition ReadAll :: "os_File \<Rightarrow> error + string" where
  "ReadAll f =
     (case fnode f of
        Regular c \<Rightarrow> Inr c
      | Directory \<Rightarrow> Inl (PathError ''read'' (fpath f) EISDIR))"

text \<open>
  A directory opened for reading: the entries not yet delivered, and the error that
  ends the stream when it is not the end of the directory.  \<open>ReadDir n\<close> for a positive
  \<open>n\<close> delivers at most \<open>n\<close> entries without an error, or no entry and the reason.
\<close>

record dir_stream =
  pending :: "DirEntry list"
  failure :: "error option"

text \<open>
  The faults of one scan: the cause for which opening the directory fails, and the
  number of entries after which reading it fails together with the cause.  \<open>None\<close>
  each time when there is no fault.
\<close>

record scan_faults =
  open_fault :: "errno option"
  read_fault :: "(nat \<times> errno) option"

definition os_Open_dir :: "scan_faults \<Rightarrow> fs \<Rightarrow> string \<Rightarrow> error + dir_stream" where
  "os_Open_dir env files path =
     (case open_fault env of
        Some e \<Rightarrow> Inl (PathError ''open'' path e)
      | None \<Rightarrow>
          (case map_of files path of
             None \<Rightarrow> Inl (PathError ''open'' path ENOENT)
           | Some (Regular c) \<Rightarrow>
               Inr \<lparr>pending = [], failure = Some (PathError ''readdirent'' path ENOTDIR)\<rparr>
           | Some Directory \<Rightarrow>
               (case read_fault env of
                  None \<Rightarrow> Inr \<lparr>pending = dir_entries files path, failure = None\<rparr>
                | Some (k, e) \<Rightarrow>
                    Inr \<lparr>pending = take k (dir_entries files path),
                         failure = Some (PathError ''readdirent'' path e)\<rparr>)))"

definition ReadDir :: "nat \<Rightarrow> dir_stream \<Rightarrow> DirEntry list \<times> error option \<times> dir_stream" where
  "ReadDir n f =
     (if pending f = [] then
        ([], Some (case failure f of None \<Rightarrow> EOF | Some e \<Rightarrow> e), f)
      else (take n (pending f), None, f\<lparr>pending := drop n (pending f)\<rparr>))"

text \<open>
  Writing to the file created at \<open>path\<close> appends to its content.  \<open>room\<close> is the
  number of bytes the file still accepts before a write fails (\<open>None\<close>: no limit); a
  write that fails has stored the bytes there was room for.
\<close>

definition append_file :: "fs \<Rightarrow> string \<Rightarrow> string \<Rightarrow> fs" where
  "append_file files path p =
     (case map_of files path of
        Some (Regular c) \<Rightarrow> AList.update path (Regular (c @ p)) files
      | _ \<Rightarrow> files)"

definition File_Write ::
  "nat option \<Rightarrow> fs \<Rightarrow> string \<Rightarrow> string \<Rightarrow> nat \<times> error option \<times> fs \<times> nat option" where
  "File_Write room files path p =
     (case room of
        None \<Rightarrow> (length p, None, append_file files path p, None)
      | Some k \<Rightarrow>
          if length p \<le> k then (length p, None, append_file files path p, Some (k - length p))
          else (k, Some (PathError ''write'' path ENOSPC), append_file files path (take k p), Some 0))"

subsection \<open>The filename gate\<close>

text \<open>
  Modelled from the spec: \<open>LocalBackend\<close>, \<open>tailcfg.Node\<close> and
  \<open>tailcfg.UserProfile\<close> are declared in files of the repository that are not at hand.
  Of a node and a user profile only the fields that the peer API reads are kept.  Of the
  backend the model keeps what \<open>hasCapFileSharing()\<close> answers (the capability probe of
  the mesh control plane), whether the engine \<open>b.e\<close> is the userspace network stack,
  and the calls that the peer API makes on the notification bus, in order:
  \<open>sendFileNotify()\<close> signals the front-end, \<open>registerIncomingFile(upload, active)\<close>
  lets an upload join and leave the set of uploads in flight.  Logging is left out.
\<close>

record Node =
  User :: int
  ComputedName :: string

record UserProfile =
  DisplayName :: string

datatype event = SendFileNotify | RegisterIncomingFile string bool

record LocalBackend =
  capFileSharing :: bool
  isNetstack :: bool
  events :: "event list"

definition hasCapFileSharing :: "LocalBackend \<Rightarrow> bool" where
  "hasCapFileSharing lb = capFileSharing lb"

definition sendFileNotify :: "LocalBackend \<Rightarrow> LocalBackend" where
  "sendFileNotify lb = lb\<lparr>events := events lb @ [SendFileNotify]\<rparr>"

record peerAPIServer =
  b :: LocalBackend
  rootDir :: string
  tunName :: string
  selfNode :: Node
  knownEmpty :: bool
  directFileMode :: bool

definition partialSuffix :: string where
  "partialSuffix = ''.partial''"

definition validFilenameRune :: "(int \<Rightarrow> bool) \<Rightarrow> int \<Rightarrow> bool" where
  "validFilenameRune IsPrint r =
     (if r = of_char CHR ''/'' then False
      else if r \<in> of_char ` {CHR 0x5C, CHR '':'', CHR ''*'', CHR 0x22, CHR ''<'', CHR ''>'', CHR ''|''}
        then False
      else IsPrint r)"

definition diskPath :: "(int \<Rightarrow> bool) \<Rightarrow> peerAPIServer \<Rightarrow> string \<Rightarrow> string \<times> bool" where
  "diskPath IsPrint s baseName =
     (if \<not> ValidString baseName then ([], False)
      else if TrimSpace baseName \<noteq> baseName then ([], False)
      else if 255 < length baseName then ([], False)
      else
        let clean = Clean baseName
        in if clean \<noteq> baseName \<or> clean = ''.'' \<or> clean = ''..''
              \<or> HasSuffix clean partialSuffix
           then ([], False)
           else if \<not> list_all (validFilenameRune IsPrint) (runes baseName) then ([], False)
           else (filepath_Join [rootDir s, baseName], True))"

subsection \<open>The staging store\<close>

text \<open>The inner loop of \<open>hasFilesWaiting\<close> over one batch of directory entries.\<close>

fun waiting_in :: "DirEntry list \<Rightarrow> bool" where
  "waiting_in [] = False"
| "waiting_in (de # des) =
     (if HasSuffix (Name de) partialSuffix then waiting_in des
      else if IsRegular de then True
      else waiting_in des)"

text \<open>
  The outer loop of \<open>hasFilesWaiting\<close>: read batches of ten entries until one holds a
  waiting file or the read reports an error; the end of the directory sets the cache.
\<close>

function scan_dir :: "peerAPIServer \<Rightarrow> dir_stream \<Rightarrow> bool \<times> peerAPIServer" where
  "scan_dir s f =
     (case ReadDir 10 f of
        (des, err, f') \<Rightarrow>
          if waiting_in des then (True, s)
          else
            let s' = (if err = Some EOF then s\<lparr>knownEmpty := True\<rparr> else s)
            in if err \<noteq> None then (False, s') else scan_dir s' f')"
  by pat_completeness auto
termination
  by (relation "measure (\<lambda>(s, f). length (pending f))")
    (auto simp: ReadDir_def split: if_splits)

declare scan_dir.simps [simp del]

definition hasFilesWaiting ::
  "scan_faults \<Rightarrow> peerAPIServer \<Rightarrow> fs \<Rightarrow> bool \<times> peerAPIServer" where
  "hasFilesWaiting env s files =
     (if rootDir s = [] \<or> directFileMode s then (False, s)
      else if knownEmpty s then (False, s)
      else
        (case os_Open_dir env files (rootDir s) of
           Inl err \<Rightarrow> (False, s)
         | Inr f \<Rightarrow> scan_dir s f))"

text \<open>
  \<open>DeleteFile\<close>.  \<open>goos\<close> is \<open>runtime.GOOS\<close>.  \<open>within\<close> holds, for the successive
  failed attempts on Windows, whether less than ten seconds have passed since the first
  one; when the list is used up the ten seconds are over.  The error that is returned
  has its path replaced.
\<close>

definition redact :: "error \<Rightarrow> error" where
  "redact err = (case err of PathError op path e \<Rightarrow> PathError op ''redact'' e | _ \<Rightarrow> err)"

fun remove_retry :: "string \<Rightarrow> bool list \<Rightarrow> fs \<Rightarrow> string \<Rightarrow> error option \<times> fs" where
  "remove_retry goos within files path =
     (case os_Remove files path of
        (None, files') \<Rightarrow> (None, files')
      | (Some err, files') \<Rightarrow>
          if os_IsNotExist err then (None, files')
          else if goos = ''windows'' then
            (case within of
               True # later \<Rightarrow> remove_retry goos later files' path
             | _ \<Rightarrow> (Some (redact err), files'))
          else (Some (redact err), files'))"

declare remove_retry.simps [simp del]

definition DeleteFile ::
  "(int \<Rightarrow> bool) \<Rightarrow> string \<Rightarrow> bool list \<Rightarrow> peerAPIServer \<Rightarrow> fs \<Rightarrow> string
     \<Rightarrow> error option \<times> peerAPIServer \<times> fs" where
  "DeleteFile IsPrint goos within s files baseName =
     (if rootDir s = [] then (Some (errorString ''peerapi disabled; no storage configured''), s, files)
      else if directFileMode s then (Some (errorString ''deletes not allowed in direct mode''), s, files)
      else
        (case diskPath IsPrint s baseName of
           (path, ok) \<Rightarrow>
             if \<not> ok then (Some (errorString ''bad filename''), s, files)
             else (case remove_retry goos within files path of
                     (err, files') \<Rightarrow> (err, s, files'))))"

definition OpenFile ::
  "(int \<Rightarrow> bool) \<Rightarrow> peerAPIServer \<Rightarrow> fs \<Rightarrow> string \<Rightarrow> error + (os_File \<times> int)" where
  "OpenFile IsPrint s files baseName =
     (if rootDir s = [] then Inl (errorString ''peerapi disabled; no storage configured'')
      else if directFileMode s then Inl (errorString ''opens not allowed in direct mode'')
      else
        (case diskPath IsPrint s baseName of
           (path, ok) \<Rightarrow>
             if \<not> ok then Inl (errorString ''bad filename'')
             else
               (case os_Open files path of
                  Inl err \<Rightarrow> Inl err
                | Inr f \<Rightarrow>
                    (case File_Stat_Size f of
                       Inl err \<Rightarrow> Inl err
                     | Inr n \<Rightarrow> Inr (f, n)))))"

subsection \<open>The listener\<close>

text \<open>
  Package \<open>netaddr\<close> is not part of the repository.  An address is modelled by what
  the three methods that the peer API calls on it return: its text, whether it is an
  IPv6 address, and its 16-byte form.  \<open>lc\<close> stands for \<open>lc.Listen\<close>: the error of
  binding a network and an address, \<open>None\<close> when the bind succeeds.
\<close>

record netaddr_IP =
  ip_String :: string
  ip_Is6 :: bool
  ip_As16 :: "8 word list"

record net_Listener =
  network :: string
  address :: string

definition tryPort :: "8 word list \<Rightarrow> 8 word \<Rightarrow> 16 word" where
  "tryPort a16 k =
     (let hashData = drop (length a16 - 3) a16;
          hashData' = hashData[0 := hashData ! 0 + k]
      in push_bit 10 32 OR ucast (ChecksumIEEE hashData'))"

function listen_tries ::
  "(string \<Rightarrow> string \<Rightarrow> error option) \<Rightarrow> string \<Rightarrow> string \<Rightarrow> netaddr_IP \<Rightarrow> nat
     \<Rightarrow> error + net_Listener" where
  "listen_tries lc tcp4or6 ipStr ip k =
     (if k < 5 then
        (let port = tryPort (ip_As16 ip) (of_nat k);
             addr = JoinHostPort ipStr (Itoa (unat port))
         in case lc tcp4or6 addr of
              None \<Rightarrow> Inr \<lparr>network = tcp4or6, address = addr\<rparr>
            | Some err \<Rightarrow> listen_tries lc tcp4or6 ipStr ip (Suc k))
      else
        (let addr = JoinHostPort ipStr ''0''
         in case lc tcp4or6 addr of
              None \<Rightarrow> Inr \<lparr>network = tcp4or6, address = addr\<rparr>
            | Some err \<Rightarrow> Inl err))"
  by pat_completeness auto
termination
  by (relation "measure (\<lambda>(lc, tcp4or6, ipStr, ip, k). 5 - k)") auto

declare listen_tries.simps [simp del]

text \<open>
  \<open>initListenConfig\<close> is \<open>None\<close> when no hook is registered, else the result of the
  hook; \<open>goos\<close> is \<open>runtime.GOOS\<close>.
\<close>

definition listen ::
  "error option option \<Rightarrow> string \<Rightarrow> (string \<Rightarrow> string \<Rightarrow> error option) \<Rightarrow> peerAPIServer
     \<Rightarrow> netaddr_IP \<Rightarrow> error + net_Listener" where
  "listen initListenConfig goos lc s ip =
     (case (case initListenConfig of
              None \<Rightarrow> Inr (ip_String ip)
            | Some (Some err) \<Rightarrow> Inl err
            | Some None \<Rightarrow> Inr (if goos = ''darwin'' \<or> goos = ''ios'' then [] else ip_String ip)) of
        Inl err \<Rightarrow> Inl err
      | Inr ipStr0 \<Rightarrow>
          (let ipStr = (if isNetstack (b s) then [] else ipStr0);
               tcp4or6 = (if ip_Is6 ip then ''tcp6'' else ''tcp4'')
           in listen_tries lc tcp4or6 ipStr ip 0))"

subsection \<open>The handler\<close>

text \<open>
  The handler of one connection.  \<open>remoteAddr_IP\<close> is the text that \<open>%v\<close> prints for
  \<open>h.remoteAddr.IP\<close>.  Its server \<open>ps\<close> is the server state that every function
  below takes and returns.
\<close>

record peerAPIHandler =
  remoteAddr_IP :: string
  isSelf :: bool
  peerNode :: Node
  peerUser :: UserProfile

text \<open>
  A request as package \<open>net/http\<close> hands it over: the method, the decoded path
  \<open>r.URL.Path\<close>, the result of \<open>r.URL.EscapedPath()\<close>, the declared length (\<open>-1\<close>
  when unknown) and the body.  The body is the sequence of the non-final results of
  \<open>Read\<close>, each with the time (in nanoseconds) that \<open>time.Now()\<close> shows while it is
  written, and the way it ends: \<open>None\<close> for the end of the body, else the read error.
\<close>

record request_body =
  chunks :: "(int \<times> string) list"
  ending :: "error option"

record request =
  Method :: string
  URL_Path :: string
  URL_EscapedPath :: string
  ContentLength :: int
  Body :: request_body

record response =
  status :: int
  wbody :: string

text \<open>\<open>http.Error\<close> sends the status code and the message on a line of its own.\<close>

definition http_Error :: "string \<Rightarrow> int \<Rightarrow> response" where
  "http_Error msg code = \<lparr>status = code, wbody = msg @ [CHR 0x0A]\<rparr>"

text \<open>
  An upload in flight.  The writer \<open>w\<close> of the source is the file created at the
  destination path; the handler \<open>ph\<close> gives access to the backend, which the functions
  below take and return; the mutex has no counterpart in a sequential run.
  \<open>lastNotify\<close> is \<open>None\<close> for the zero time.
\<close>

record incomingFile =
  name :: string
  size' :: int
  partialPath :: string
  copied :: int
  done' :: bool
  lastNotify :: "int option"

definition registerIncomingFile :: "LocalBackend \<Rightarrow> incomingFile \<Rightarrow> bool \<Rightarrow> LocalBackend" where
  "registerIncomingFile lb inFile active =
     lb\<lparr>events := events lb @ [RegisterIncomingFile (name inFile) active]\<rparr>"

definition markAndNotifyDone :: "incomingFile \<Rightarrow> LocalBackend \<Rightarrow> incomingFile \<times> LocalBackend" where
  "markAndNotifyDone f lb = (f\<lparr>done' := True\<rparr>, sendFileNotify lb)"

definition Second :: int where
  "Second = 1000000000"

text \<open>
  \<open>incomingFile.Write\<close> at time \<open>now\<close>: forward the bytes to the file at \<open>path\<close>,
  count the bytes stored, and notify when bytes were stored and the last notification is
  more than a second ago or there was none.
\<close>

definition incomingFile_Write ::
  "int \<Rightarrow> string \<Rightarrow> incomingFile \<times> LocalBackend \<times> fs \<times> nat option \<Rightarrow> string
     \<Rightarrow> nat \<times> error option \<times> incomingFile \<times> LocalBackend \<times> fs \<times> nat option" where
  "incomingFile_Write now path st p =
     (case st of
        (f, lb, files, room) \<Rightarrow>
          (case File_Write room files path p of
             (n, err, files', room') \<Rightarrow>
               if 0 < n then
                 (let f1 = f\<lparr>copied := copied f + int n\<rparr>
                  in if (case lastNotify f1 of None \<Rightarrow> True | Some t \<Rightarrow> now - t > Second)
                     then (n, err, f1\<lparr>lastNotify := Some now\<rparr>, sendFileNotify lb, files', room')
                     else (n, err, f1, lb, files', room'))
               else (n, err, f, lb, files', room')))"

text \<open>
  \<open>io.Copy\<close> from the request body into the upload: write what each read delivers,
  stop at the first write error or short write, and report the read error that ends the
  body unless it is the end of the body.
\<close>

fun io_Copy ::
  "string \<Rightarrow> (int \<times> string) list \<Rightarrow> error option
     \<Rightarrow> incomingFile \<times> LocalBackend \<times> fs \<times> nat option \<Rightarrow> int
     \<Rightarrow> int \<times> error option \<times> incomingFile \<times> LocalBackend \<times> fs \<times> nat option" where
  "io_Copy path [] er st written = (written, er, st)"
| "io_Copy path ((now, p) # rest) er st written =
     (if 0 < length p then
        (case incomingFile_Write now path st p of
           (nw, ew, st') \<Rightarrow>
             if ew \<noteq> None then (written + int nw, ew, st')
             else if length p \<noteq> nw then (written + int nw, Some ErrShortWrite, st')
             else io_Copy path rest er st' (written + int nw))
      else io_Copy path rest er st written)"

text \<open>
  The faults of one upload: the cause for which \<open>os.Create\<close> fails, the number of
  bytes the destination accepts before a write fails, the cause for which closing the
  destination fails.  \<open>None\<close> each time when there is no fault.
\<close>

record put_faults =
  create_fault :: "errno option"
  write_room :: "nat option"
  close_fault :: "errno option"

text \<open>
  \<open>handlePeerPut\<close> from \<open>os.Create\<close> on.  The deferred calls run when the function
  returns, the last one registered first: the upload leaves the set of uploads in
  flight, then the destination is removed unless \<open>success\<close> was set.
\<close>

definition put_close ::
  "put_faults \<Rightarrow> string \<Rightarrow> incomingFile option \<Rightarrow> peerAPIServer \<Rightarrow> LocalBackend \<Rightarrow> fs
     \<Rightarrow> response \<times> peerAPIServer \<times> fs" where
  "put_close env dstFile inFile s lb files =
     (let unregister = (\<lambda>lb'. case inFile of None \<Rightarrow> lb' | Some f \<Rightarrow> registerIncomingFile lb' f False)
      in case close_fault env of
           Some e \<Rightarrow>
             (http_Error (error_Error (PathError ''close'' dstFile e)) 500,
              s\<lparr>b := unregister lb\<rparr>, snd (os_Remove files dstFile))
         | None \<Rightarrow>
             (let lb1 = (if directFileMode s
                         then (case inFile of None \<Rightarrow> lb | Some f \<Rightarrow> snd (markAndNotifyDone f lb))
                         else lb);
                  s1 = s\<lparr>knownEmpty := False\<rparr>;
                  lb2 = sendFileNotify lb1
              in (\<lparr>status = 200, wbody = ''{}'' @ [CHR 0x0A]\<rparr>, s1\<lparr>b := unregister lb2\<rparr>, files)))"

definition put_store ::
  "put_faults \<Rightarrow> request \<Rightarrow> string \<Rightarrow> string \<Rightarrow> peerAPIServer \<Rightarrow> fs
     \<Rightarrow> response \<times> peerAPIServer \<times> fs" where
  "put_store env r baseName dstFile s files =
     (case os_Create (create_fault env) files dstFile of
        Inl err \<Rightarrow> (http_Error (error_Error err) 500, s, files)
      | Inr staging_waiting \<Rightarrow>
          if ContentLength r \<noteq> 0 then
            (let inFile = \<lparr>name = baseName, size' = ContentLength r,
                           partialPath = (if directFileMode s then dstFile else []),
                           copied = 0, done' = False, lastNotify = None\<rparr>;
                 lb1 = registerIncomingFile (b s) inFile True
             in case io_Copy dstFile (chunks (Body r)) (ending (Body r))
                       (inFile, lb1, staging_waiting, write_room env) 0 of
                  (n, err, inFile', lb2, staging_partial, room2) \<Rightarrow>
                    (case err of
                       Some e \<Rightarrow>
                         (http_Error (error_Error e) 500,
                          s\<lparr>b := registerIncomingFile lb2 inFile' False\<rparr>,
                          snd (os_Remove staging_partial dstFile))
                     | None \<Rightarrow> put_close env dstFile (Some inFile') s lb2 staging_partial))
          else put_close env dstFile None s (b s) staging_waiting)"

definition handlePeerPut ::
  "(int \<Rightarrow> bool) \<Rightarrow> put_faults \<Rightarrow> peerAPIHandler \<Rightarrow> request \<Rightarrow> peerAPIServer \<Rightarrow> fs
     \<Rightarrow> response \<times> peerAPIServer \<times> fs" where
  "handlePeerPut IsPrint env h r s files =
     (if \<not> isSelf h then (http_Error ''not owner'' 403, s, files)
      else if \<not> hasCapFileSharing (b s) then
        (http_Error ''file sharing not enabled by Tailscale admin'' 403, s, files)
      else if Method r \<noteq> ''PUT'' then (http_Error ''expected method PUT'' 405, s, files)
      else if rootDir s = [] then (http_Error ''no rootdir'' 500, s, files)
      else
        (let rawPath = URL_EscapedPath r;
             suffix = TrimPrefix rawPath ''/v0/put/''
         in if suffix = rawPath then (http_Error ''misconfigured internals'' 500, s, files)
            else if suffix = [] then (http_Error ''empty filename'' 400, s, files)
            else if Contains suffix ''/'' then (http_Error ''directories not supported'' 400, s, files)
            else
              (case PathUnescape suffix of
                 Inl err \<Rightarrow> (http_Error ''bad path encoding'' 400, s, files)
               | Inr baseName \<Rightarrow>
                   (case diskPath IsPrint s baseName of
                      (dstFile, ok) \<Rightarrow>
                        if \<not> ok then (http_Error ''bad filename'' 400, s, files)
                        else put_store env r baseName
                               (if directFileMode s then dstFile @ partialSuffix else dstFile)
                               s files))))"

text \<open>The greeting that every other path gets, as the two \<open>Fprintf\<close> calls write it.\<close>

definition greeting :: "peerAPIHandler \<Rightarrow> string" where
  "greeting h =
     ''<html>'' @ [CHR 0x0A]
     @ ''<meta name='' @ [CHR 0x22] @ ''viewport'' @ [CHR 0x22] @ '' content='' @ [CHR 0x22]
     @ ''width=device-width, initial-scale=1'' @ [CHR 0x22] @ ''>'' @ [CHR 0x0A]
     @ ''<body>'' @ [CHR 0x0A]
     @ ''<h1>Hello, '' @ EscapeString (DisplayName (peerUser h))
     @ '' ('' @ remoteAddr_IP h @ '')</h1>'' @ [CHR 0x0A]
     @ ''This is my Tailscale device. Your device is ''
     @ EscapeString (ComputedName (peerNode h)) @ ''.'' @ [CHR 0x0A]
     @ (if isSelf h then ''<p>You are the owner of this node.'' @ [CHR 0x0A] else [])"

definition ServeHTTP ::
  "(int \<Rightarrow> bool) \<Rightarrow> put_faults \<Rightarrow> peerAPIHandler \<Rightarrow> request \<Rightarrow> peerAPIServer \<Rightarrow> fs
     \<Rightarrow> response \<times> peerAPIServer \<times> fs" where
  "ServeHTTP IsPrint env h r s files =
     (if HasPrefix (URL_Path r) ''/v0/put/'' then handlePeerPut IsPrint env h r s files
      else (\<lparr>status = 200, wbody = greeting h\<rparr>, s, files))"

text \<open>
  \<open>unicode.IsPrint\<close> on the code points up to U+00FF, where Go answers from a
  fixed table: the ASCII characters from the space to the tilde, and U+00A1 to U+00FF
  without the soft hyphen U+00AD.  It stands for \<open>IsPrint\<close> in the concrete runs
  below, all of which stay in the ASCII range.
\<close>

definition IsPrint_Latin1 :: "int \<Rightarrow> bool" where
  "IsPrint_Latin1 r = (0x20 \<le> r \<and> r \<le> 0x7E \<or> 0xA1 \<le> r \<and> r \<le> 0xFF \<and> r \<noteq> 0xAD)"

text \<open>A server for the concrete runs: staging root \<open>/tmp/x\<close>, file sharing enabled.\<close>

definition backend0 :: LocalBackend where
  "backend0 = \<lparr>capFileSharing = True, isNetstack = False, events = []\<rparr>"

definition server0 :: peerAPIServer where
  "server0 =
     \<lparr>b = backend0, rootDir = ''/tmp/x'', tunName = ''tailscale0'',
      selfNode = \<lparr>User = 1, ComputedName = ''mine''\<rparr>,
      knownEmpty = False, directFileMode = False\<rparr>"

text \<open>Further values for the concrete runs: a handler for a peer of the same user, an
  upload of the three bytes \<open>hi\<close> and a line feed under the name \<open>hello.txt\<close>, an
  environment without faults, and staging directories that are empty, that hold a waiting
  file, and that hold only a partial file and a subdirectory.\<close>

definition handler0 :: peerAPIHandler where
  "handler0 =
     \<lparr>remoteAddr_IP = ''100.64.0.7'', isSelf = True,
      peerNode = \<lparr>User = 1, ComputedName = ''theirs''\<rparr>,
      peerUser = \<lparr>DisplayName = ''<Alice>''\<rparr>\<rparr>"

definition request0 :: request where
  "request0 =
     \<lparr>Method = ''PUT'', URL_Path = ''/v0/put/hello.txt'', URL_EscapedPath = ''/v0/put/hello.txt'',
      ContentLength = 3, Body = \<lparr>chunks = [(5, ''hi'' @ [CHR 0x0A])], ending = None\<rparr>\<rparr>"

definition no_faults :: put_faults where
  "no_faults = \<lparr>create_fault = None, write_room = None, close_fault = None\<rparr>"

definition no_scan_faults :: scan_faults where
  "no_scan_faults = \<lparr>open_fault = None, read_fault = None\<rparr>"

definition staging_empty :: fs where
  "staging_empty = [(''/tmp/x'', Directory)]"

definition staging_waiting :: fs where
  "staging_waiting =
     [(''/tmp/x'', Directory), (''/tmp/x/a.partial'', Regular ''zz''), (''/tmp/x/sub'', Directory),
      (''/tmp/x/hello.txt'', Regular ''hi''), (''/tmp/other'', Regular ''no'')]"

definition staging_partial :: fs where
  "staging_partial =
     [(''/tmp/x'', Directory), (''/tmp/x/a.partial'', Regular ''zz''), (''/tmp/x/sub'', Directory)]"

text \<open>An address whose last three bytes are 1, 2, 3, and a network on which only the
  port that the system assigns can be bound.\<close>

definition ip0 :: netaddr_IP where
  "ip0 = \<lparr>ip_String = ''100.1.2.3'', ip_Is6 = False,
          ip_As16 = [0, 0, 0, 0, 0, 0, 0, 0, 0, 0, 0xFF, 0xFF, 100, 1, 2, 3]\<rparr>"

definition lc0 :: "string \<Rightarrow> string \<Rightarrow> error option" where
  "lc0 net addr =
     (if addr = ''100.1.2.3:0'' then None
      else Some (errorString ''bind: address already in use''))"

text \<open>A staging directory in which a directory stands where \<open>hello.txt\<close> would be
  written, an upload without a body, and an upload that announces five bytes and whose
  connection drops after two.\<close>

definition staging_blocked :: fs where
  "staging_blocked = [(''/tmp/x'', Directory), (''/tmp/x/hello.txt'', Directory)]"

definition empty_request :: request where
  "empty_request = request0\<lparr>ContentLength := 0, Body := \<lparr>chunks = [], ending = None\<rparr>\<rparr>"

definition dropped_request :: request where
  "dropped_request =
     request0\<lparr>ContentLength := 5, Body := \<lparr>chunks = [(5, ''hi'')], ending = Some ErrUnexpectedEOF\<rparr>\<rparr>"

text \<open>
  The greeting as the specification describes it: a fixed page around three values, the
  name of the peer, its address and the name of a device, and a line that marks the
  owner.  It is compared below with what \<open>ServeHTTP\<close> writes.
\<close>

definition page :: "string \<Rightarrow> string \<Rightarrow> string \<Rightarrow> bool \<Rightarrow> string" where
  "page who addr device owner =
     ''<html>'' @ [CHR 0x0A]
     @ ''<meta name='' @ [CHR 0x22] @ ''viewport'' @ [CHR 0x22] @ '' content='' @ [CHR 0x22]
     @ ''width=device-width, initial-scale=1'' @ [CHR 0x22] @ ''>'' @ [CHR 0x0A]
     @ ''<body>'' @ [CHR 0x0A]
     @ ''<h1>Hello, '' @ who @ '' ('' @ addr @ '')</h1>'' @ [CHR 0x0A]
     @ ''This is my Tailscale device. Your device is '' @ device @ ''.'' @ [CHR 0x0A]
     @ (if owner then ''<p>You are the owner of this node.'' @ [CHR 0x0A] else [])"

section \<open>Properties\<close>

subsection \<open>The filename gate\<close>

lemma Clean_Nil: "Clean [] = ''.''"
  by (simp add: Clean_def)

text \<open>
  Claim C1.  \<open>diskPath\<close> accepts a base name \<open>n\<close> exactly when \<open>n\<close> is valid
  UTF-8, trimming white space leaves it unchanged, its length in bytes is between 1 and
  255, \<open>path.Clean\<close> leaves it unchanged, it is neither \<open>.\<close> nor \<open>..\<close>, it does
  not end in \<open>.partial\<close>, and every rune of it is printable and none of slash,
  backslash, colon, asterisk, double quote, less-than, greater-than and bar.  When it
  accepts, the path it returns is \<open>filepath.Join\<close> of the staging root and \<open>n\<close>.
  The gate is a function of the server's root and the name alone: it neither reads nor
  changes a file system.  The code has no test for the empty name; the lower bound on
  the length follows because \<open>path.Clean\<close> turns the empty name into a dot.
\<close>

theorem diskPath_accepts_iff:
  "(snd (diskPath IsPrint s n) \<longleftrightarrow>
      ValidString n \<and> TrimSpace n = n \<and> 1 \<le> length n \<and> length n \<le> 255
      \<and> Clean n = n \<and> n \<noteq> ''.'' \<and> n \<noteq> ''..'' \<and> \<not> HasSuffix n ''.partial''
      \<and> (\<forall>r \<in> set (runes n). IsPrint r
            \<and> r \<notin> of_char ` {CHR ''/'', CHR 0x5C, CHR '':'', CHR ''*'', CHR 0x22,
                               CHR ''<'', CHR ''>'', CHR ''|''}))
   \<and> (snd (diskPath IsPrint s n) \<longrightarrow>
        fst (diskPath IsPrint s n) = filepath_Join [rootDir s, n])"
proof -
  have ne: "Clean n = n \<Longrightarrow> 1 \<le> length n"
    by (cases n) (simp_all add: Clean_Nil)
  show ?thesis
    using ne
    by (auto simp add: diskPath_def Let_def list_all_iff validFilenameRune_def partialSuffix_def)
qed

theorem diskPath_accepts_iff_witness:
  "snd (diskPath IsPrint_Latin1
          server0 ''hello.txt'')
   \<and> fst (diskPath IsPrint_Latin1
          server0 ''hello.txt'')
       = ''/tmp/x/hello.txt''"
proof -
  let ?s = "server0"
  have c: "ValidString ''hello.txt'' \<and> TrimSpace ''hello.txt'' = ''hello.txt''
      \<and> 1 \<le> length ''hello.txt'' \<and> length ''hello.txt'' \<le> 255
      \<and> Clean ''hello.txt'' = ''hello.txt'' \<and> ''hello.txt'' \<noteq> ''.'' \<and> ''hello.txt'' \<noteq> ''..''
      \<and> \<not> HasSuffix ''hello.txt'' ''.partial''
      \<and> (\<forall>r \<in> set (runes ''hello.txt''). IsPrint_Latin1 r
            \<and> r \<notin> of_char ` {CHR ''/'', CHR 0x5C, CHR '':'', CHR ''*'', CHR 0x22,
                               CHR ''<'', CHR ''>'', CHR ''|''})"
    by code_simp
  have j: "filepath_Join [rootDir ?s, ''hello.txt''] = ''/tmp/x/hello.txt''"
    by code_simp
  from diskPath_accepts_iff [of IsPrint_Latin1 ?s "''hello.txt''"] c j show ?thesis
    by simp
qed

subsection \<open>The listener\<close>

lemma tryPort_ge: "0x8000 \<le> tryPort a16 k"
proof -
  have "push_bit 10 (32 :: 16 word) = 0x8000" by simp
  then show ?thesis
    by (simp add: tryPort_def Let_def le_word_or2 del: push_bit_numeral)
qed

lemma last3: "length a16 = 16 \<Longrightarrow> drop 13 a16 = [a16 ! 13, a16 ! 14, a16 ! (15::nat)]"
proof -
  assume l: "length a16 = 16"
  have "drop 13 a16 = a16 ! 13 # drop 14 a16"
    using l by (simp add: Cons_nth_drop_Suc [symmetric])
  also have "drop 14 a16 = a16 ! 14 # drop 15 a16"
    using l by (simp add: Cons_nth_drop_Suc [symmetric])
  also have "drop 15 a16 = a16 ! 15 # drop 16 a16"
    using l by (simp add: Cons_nth_drop_Suc [symmetric])
  finally show ?thesis using l by simp
qed

lemma tryPort_formula:
  assumes "length a16 = 16"
  shows "(ucast (tryPort a16 k) :: 32 word)
           = 0x8000 OR (ChecksumIEEE [a16 ! 13 + k, a16 ! 14, a16 ! 15] AND 0xFFFF)"
proof -
  have p: "push_bit 10 (32 :: 16 word) = 0x8000" by simp
  have m: "(0xFFFF :: 32 word) = mask 16" by (simp add: mask_eq_exp_minus_1)
  have tp: "tryPort a16 k = 0x8000 OR ucast (ChecksumIEEE [a16 ! 13 + k, a16 ! 14, a16 ! 15])"
    using assms by (simp add: tryPort_def Let_def last3 p del: push_bit_numeral)
  have "(ucast (a OR (ucast c :: 16 word)) :: 32 word) = ucast a OR (c AND mask 16)"
    for c :: "32 word" and a :: "16 word"
    by (rule bit_word_eqI) (auto simp: bit_simps)
  from this [where a = "0x8000"]
  have "(ucast (0x8000 OR (ucast c :: 16 word)) :: 32 word) = 0x8000 OR (c AND mask 16)" for c :: "32 word"
    by simp
  then show ?thesis
    unfolding tp m by simp
qed

lemma listen_tries_success:
  assumes "k < 5" "i \<le> k"
    and "\<forall>j. i \<le> j \<and> j < k \<longrightarrow> lc net (JoinHostPort ipStr (Itoa (unat (tryPort (ip_As16 ip) (of_nat j))))) \<noteq> None"
    and "lc net (JoinHostPort ipStr (Itoa (unat (tryPort (ip_As16 ip) (of_nat k))))) = None"
  shows "listen_tries lc net ipStr ip i
     = Inr \<lparr>network = net, address = JoinHostPort ipStr (Itoa (unat (tryPort (ip_As16 ip) (of_nat k))))\<rparr>"
  using assms
proof (induction "k - i" arbitrary: i)
  case 0
  then have "i = k" by simp
  with 0 show ?case by (subst listen_tries.simps) (simp add: Let_def)
next
  case (Suc d)
  then have lt: "i < k" and d: "d = k - Suc i" by simp_all
  from Suc.prems lt obtain e where
    f: "lc net (JoinHostPort ipStr (Itoa (unat (tryPort (ip_As16 ip) (of_nat i))))) = Some e"
    by auto
  have "listen_tries lc net ipStr ip i = listen_tries lc net ipStr ip (Suc i)"
    using lt Suc.prems(1) f by (subst listen_tries.simps) (simp add: Let_def)
  also have "\<dots> = Inr \<lparr>network = net, address = JoinHostPort ipStr (Itoa (unat (tryPort (ip_As16 ip) (of_nat k))))\<rparr>"
    using Suc.prems lt by (intro Suc.hyps(1) d) auto
  finally show ?case .
qed

lemma listen_tries_fallback:
  assumes "i \<le> 5"
    and "\<forall>j. i \<le> j \<and> j < 5 \<longrightarrow> lc net (JoinHostPort ipStr (Itoa (unat (tryPort (ip_As16 ip) (of_nat j))))) \<noteq> None"
  shows "listen_tries lc net ipStr ip i
     = (case lc net (JoinHostPort ipStr ''0'') of
          None \<Rightarrow> Inr \<lparr>network = net, address = JoinHostPort ipStr ''0''\<rparr>
        | Some err \<Rightarrow> Inl err)"
  using assms
proof (induction "5 - i" arbitrary: i)
  case 0
  then have "i = 5" by simp
  then show ?case by (subst listen_tries.simps) (simp add: Let_def)
next
  case (Suc d)
  then have lt: "i < 5" and d: "d = 5 - Suc i" by simp_all
  from Suc.prems lt obtain e where
    f: "lc net (JoinHostPort ipStr (Itoa (unat (tryPort (ip_As16 ip) (of_nat i))))) = Some e"
    by auto
  have "listen_tries lc net ipStr ip i = listen_tries lc net ipStr ip (Suc i)"
    using lt f by (subst listen_tries.simps) (simp add: Let_def)
  also have "\<dots> = (case lc net (JoinHostPort ipStr ''0'') of
          None \<Rightarrow> Inr \<lparr>network = net, address = JoinHostPort ipStr ''0''\<rparr>
        | Some err \<Rightarrow> Inl err)"
    using Suc.prems lt by (intro Suc.hyps(1) d) auto
  finally show ?case .
qed

lemma digits_nonempty: "digits n \<noteq> []"
  by (subst digits.simps) simp

lemma Itoa_not_zero: "10 \<le> n \<Longrightarrow> Itoa n \<noteq> ''0''"
proof -
  assume "10 \<le> n"
  then have "Itoa n = digits (n div 10) @ [char_of (48 + n mod 10)]"
    unfolding Itoa_def by (subst digits.simps) simp
  moreover have "1 \<le> length (digits (n div 10))"
    using digits_nonempty [of "n div 10"] by (cases "digits (n div 10)") simp_all
  ultimately have "2 \<le> length (Itoa n)" by simp
  then show ?thesis by auto
qed

lemma tryPort_unat_ge: "10 \<le> unat (tryPort a16 k)"
proof -
  have "unat (0x8000 :: 16 word) \<le> unat (tryPort a16 k)"
    using tryPort_ge [of a16 k] by (simp only: word_le_nat_alt)
  then show ?thesis by simp
qed

text \<open>
  Claim C4.  For an address whose 16-byte form is \<open>a16\<close>, the port of attempt \<open>k\<close>
  is \<open>0x8000 | (CRC32-IEEE(bytes) & 0xFFFF)\<close> over the last three bytes of \<open>a16\<close>
  with \<open>k\<close> added to the first of them, so it is at least \<open>0x8000\<close>.  When the
  hook is absent or succeeds, \<open>listen\<close> binds the first of the ports of attempts 0 to 4
  that can be bound; when all five fail it asks for port \<open>0\<close>, the port that the
  system assigns.  \<open>ipStr\<close> is the host it binds and \<open>net\<close> the network.
\<close>

theorem listen_candidate_ports:
  assumes hook: "initListenConfig = None \<or> initListenConfig = Some None"
    and ipStr: "ipStr = (if isNetstack (b s)
                            \<or> initListenConfig = Some None \<and> (goos = ''darwin'' \<or> goos = ''ios'')
                         then [] else ip_String ip)"
    and net: "net = (if ip_Is6 ip then ''tcp6'' else ''tcp4'')"
    and len: "length (ip_As16 ip) = 16"
    and port: "port = (\<lambda>k. JoinHostPort ipStr (Itoa (unat (tryPort (ip_As16 ip) (of_nat k)))))"
  shows "(\<forall>k. ucast (tryPort (ip_As16 ip) k)
               = (0x8000 :: 32 word)
                   OR (ChecksumIEEE [ip_As16 ip ! 13 + k, ip_As16 ip ! 14, ip_As16 ip ! 15] AND 0xFFFF)
             \<and> 0x8000 \<le> tryPort (ip_As16 ip) k)
     \<and> (\<forall>k<5. (\<forall>j<k. lc net (port j) \<noteq> None) \<and> lc net (port k) = None \<longrightarrow>
           listen initListenConfig goos lc s ip = Inr \<lparr>network = net, address = port k\<rparr>)
     \<and> ((\<forall>j<5. lc net (port j) \<noteq> None) \<longrightarrow>
           listen initListenConfig goos lc s ip
             = (case lc net (JoinHostPort ipStr ''0'') of
                  None \<Rightarrow> Inr \<lparr>network = net, address = JoinHostPort ipStr ''0''\<rparr>
                | Some err \<Rightarrow> Inl err))"
proof -
  have l: "listen initListenConfig goos lc s ip = listen_tries lc net ipStr ip 0"
    using hook by (auto simp: listen_def Let_def ipStr net)
  have 1: "\<forall>k. ucast (tryPort (ip_As16 ip) k)
               = (0x8000 :: 32 word)
                   OR (ChecksumIEEE [ip_As16 ip ! 13 + k, ip_As16 ip ! 14, ip_As16 ip ! 15] AND 0xFFFF)
             \<and> 0x8000 \<le> tryPort (ip_As16 ip) k"
    using tryPort_formula [OF len] tryPort_ge by blast
  have 2: "\<forall>k<5. (\<forall>j<k. lc net (port j) \<noteq> None) \<and> lc net (port k) = None \<longrightarrow>
           listen initListenConfig goos lc s ip = Inr \<lparr>network = net, address = port k\<rparr>"
    unfolding l port by (intro allI impI listen_tries_success) auto
  have 3: "(\<forall>j<5. lc net (port j) \<noteq> None) \<longrightarrow>
           listen initListenConfig goos lc s ip
             = (case lc net (JoinHostPort ipStr ''0'') of
                  None \<Rightarrow> Inr \<lparr>network = net, address = JoinHostPort ipStr ''0''\<rparr>
                | Some err \<Rightarrow> Inl err)"
    unfolding l port by (intro impI listen_tries_fallback) auto
  from 1 2 3 show ?thesis by blast
qed

theorem listen_candidate_ports_witness:
  "listen None ''linux'' lc0 server0 ip0 = Inr \<lparr>network = ''tcp4'', address = ''100.1.2.3:0''\<rparr>
   \<and> 0x8000 \<le> tryPort (ip_As16 ip0) 0"
proof -
  let ?port = "\<lambda>k. JoinHostPort ''100.1.2.3'' (Itoa (unat (tryPort (ip_As16 ip0) (of_nat k))))"
  have busy: "\<forall>j<5. lc0 ''tcp4'' (?port j) \<noteq> None"
    using Itoa_not_zero [OF tryPort_unat_ge] by (simp add: lc0_def JoinHostPort_def)
  have free: "lc0 ''tcp4'' (JoinHostPort ''100.1.2.3'' ''0'') = None"
    by (simp add: lc0_def JoinHostPort_def)
  have "isNetstack (b server0) = False" "ip_Is6 ip0 = False" "ip_String ip0 = ''100.1.2.3''"
    "length (ip_As16 ip0) = 16"
    by (simp_all add: server0_def backend0_def ip0_def)
  with listen_candidate_ports [of None "''100.1.2.3''" server0 "''linux''" ip0 "''tcp4''" ?port lc0]
    busy free
  show ?thesis
    by (simp add: JoinHostPort_def)
qed

subsection \<open>The order of the rejections\<close>

lemma TrimPrefix_present: "TrimPrefix (pre @ t) pre = t"
  by (simp add: TrimPrefix_def HasPrefix_def)

lemma TrimPrefix_absent: "\<not> HasPrefix t pre \<Longrightarrow> TrimPrefix t pre = t"
  by (simp add: TrimPrefix_def)

lemma handlePeerPut_suffix:
  assumes "isSelf h" "hasCapFileSharing (b s)" "Method r = ''PUT''" "rootDir s \<noteq> []"
    and url: "URL_EscapedPath r = ''/v0/put/'' @ sfx"
  shows "handlePeerPut IsPrint env h r s files =
     (if sfx = [] then (http_Error ''empty filename'' 400, s, files)
      else if Contains sfx ''/'' then (http_Error ''directories not supported'' 400, s, files)
      else
        (case PathUnescape sfx of
           Inl err \<Rightarrow> (http_Error ''bad path encoding'' 400, s, files)
         | Inr baseName \<Rightarrow>
             (case diskPath IsPrint s baseName of
                (dstFile, ok) \<Rightarrow>
                  if \<not> ok then (http_Error ''bad filename'' 400, s, files)
                  else put_store env r baseName
                         (if directFileMode s then dstFile @ partialSuffix else dstFile)
                         s files)))"
proof -
  have tp: "TrimPrefix (URL_EscapedPath r) ''/v0/put/'' = sfx"
    unfolding url by (rule TrimPrefix_present)
  have "length (URL_EscapedPath r) = 8 + length sfx"
    unfolding url by simp
  then have ne: "sfx \<noteq> URL_EscapedPath r"
    by auto
  show ?thesis
    using assms(1-4) ne by (simp add: handlePeerPut_def Let_def tp)
qed

lemma Contains_single: "Contains s [c] \<longleftrightarrow> c \<in> set s"
  by (induction s) (auto simp: Contains_def sublist_Cons_right)

text \<open>
  Claim C6.  \<open>handlePeerPut\<close> rejects in this order: 403 \<open>not owner\<close> for a peer that
  is not \<open>isSelf\<close>; 403 when file sharing is not enabled; 405 for a method other than
  PUT; 500 without a staging root; 500 when the escaped path does not begin with
  \<open>/v0/put/\<close>; 400 for an empty rest of the path; 400 when the rest, still
  percent-encoded, contains a slash; 400 when it cannot be percent-decoded; 400 when the
  filename gate rejects the decoded name.  A rejection changes neither the server nor
  the file system.  The first of the concrete runs that follow is a GET to \<open>/v0/put/x\<close> from a
  peer that is not \<open>isSelf\<close>: 403, not 405.
\<close>

theorem handlePeerPut_rejections:
  "(\<not> isSelf h \<longrightarrow>
      handlePeerPut IsPrint env h r s files = (http_Error ''not owner'' 403, s, files))
   \<and> (isSelf h \<and> \<not> hasCapFileSharing (b s) \<longrightarrow>
      handlePeerPut IsPrint env h r s files
        = (http_Error ''file sharing not enabled by Tailscale admin'' 403, s, files))
   \<and> (isSelf h \<and> hasCapFileSharing (b s) \<and> Method r \<noteq> ''PUT'' \<longrightarrow>
      handlePeerPut IsPrint env h r s files = (http_Error ''expected method PUT'' 405, s, files))
   \<and> (isSelf h \<and> hasCapFileSharing (b s) \<and> Method r = ''PUT'' \<and> rootDir s = [] \<longrightarrow>
      handlePeerPut IsPrint env h r s files = (http_Error ''no rootdir'' 500, s, files))
   \<and> (isSelf h \<and> hasCapFileSharing (b s) \<and> Method r = ''PUT'' \<and> rootDir s \<noteq> [] \<longrightarrow>
        (\<not> HasPrefix (URL_EscapedPath r) ''/v0/put/'' \<longrightarrow>
           handlePeerPut IsPrint env h r s files
             = (http_Error ''misconfigured internals'' 500, s, files))
      \<and> (URL_EscapedPath r = ''/v0/put/'' \<longrightarrow>
           handlePeerPut IsPrint env h r s files = (http_Error ''empty filename'' 400, s, files))
      \<and> (\<forall>sfx. URL_EscapedPath r = ''/v0/put/'' @ sfx \<and> sfx \<noteq> [] \<longrightarrow>
           (Contains sfx ''/'' \<longrightarrow>
              handlePeerPut IsPrint env h r s files
                = (http_Error ''directories not supported'' 400, s, files))
         \<and> (\<not> Contains sfx ''/'' \<longrightarrow>
              (\<forall>err. PathUnescape sfx = Inl err \<longrightarrow>
                 handlePeerPut IsPrint env h r s files
                   = (http_Error ''bad path encoding'' 400, s, files))
            \<and> (\<forall>baseName. PathUnescape sfx = Inr baseName
                   \<and> \<not> snd (diskPath IsPrint s baseName) \<longrightarrow>
                 handlePeerPut IsPrint env h r s files
                   = (http_Error ''bad filename'' 400, s, files)))))"
proof (intro conjI impI allI)
  assume "isSelf h \<and> hasCapFileSharing (b s) \<and> Method r = ''PUT'' \<and> rootDir s \<noteq> []"
    and "\<not> HasPrefix (URL_EscapedPath r) ''/v0/put/''"
  then show "handlePeerPut IsPrint env h r s files
      = (http_Error ''misconfigured internals'' 500, s, files)"
    by (simp add: handlePeerPut_def Let_def TrimPrefix_absent)
next
  assume a: "isSelf h \<and> hasCapFileSharing (b s) \<and> Method r = ''PUT'' \<and> rootDir s \<noteq> []"
    and "URL_EscapedPath r = ''/v0/put/''"
  then have "URL_EscapedPath r = ''/v0/put/'' @ []" by simp
  with a show "handlePeerPut IsPrint env h r s files = (http_Error ''empty filename'' 400, s, files)"
    by (simp add: handlePeerPut_suffix del: append_Nil2)
next
  fix sfx
  assume a: "isSelf h \<and> hasCapFileSharing (b s) \<and> Method r = ''PUT'' \<and> rootDir s \<noteq> []"
    and u: "URL_EscapedPath r = ''/v0/put/'' @ sfx \<and> sfx \<noteq> []"
  note eq = handlePeerPut_suffix [of h s r sfx IsPrint env files]
  {
    assume "Contains sfx ''/''"
    with a u eq show "handlePeerPut IsPrint env h r s files
        = (http_Error ''directories not supported'' 400, s, files)"
      by simp
  }
  {
    fix err
    assume "\<not> Contains sfx ''/''" "PathUnescape sfx = Inl err"
    with a u eq show "handlePeerPut IsPrint env h r s files
        = (http_Error ''bad path encoding'' 400, s, files)"
      by simp
  }
  {
    fix baseName
    assume "\<not> Contains sfx ''/''"
      "PathUnescape sfx = Inr baseName \<and> \<not> snd (diskPath IsPrint s baseName)"
    with a u eq show "handlePeerPut IsPrint env h r s files
        = (http_Error ''bad filename'' 400, s, files)"
      by (simp split: prod.splits)
  }
qed (simp_all add: handlePeerPut_def)

theorem handlePeerPut_rejections_witness:
  "status (fst (handlePeerPut IsPrint_Latin1 no_faults (handler0\<lparr>isSelf := False\<rparr>)
      (request0\<lparr>Method := ''GET'', URL_EscapedPath := ''/v0/put/x''\<rparr>) server0 staging_empty)) = 403
   \<and> status (fst (handlePeerPut IsPrint_Latin1 no_faults handler0 request0
      (server0\<lparr>b := backend0\<lparr>capFileSharing := False\<rparr>\<rparr>) staging_empty)) = 403
   \<and> status (fst (handlePeerPut IsPrint_Latin1 no_faults handler0
      (request0\<lparr>Method := ''GET''\<rparr>) server0 staging_empty)) = 405
   \<and> status (fst (handlePeerPut IsPrint_Latin1 no_faults handler0 request0
      (server0\<lparr>rootDir := []\<rparr>) staging_empty)) = 500
   \<and> status (fst (handlePeerPut IsPrint_Latin1 no_faults handler0
      (request0\<lparr>URL_EscapedPath := ''/v0/put%2Fx''\<rparr>) server0 staging_empty)) = 500
   \<and> status (fst (handlePeerPut IsPrint_Latin1 no_faults handler0
      (request0\<lparr>URL_EscapedPath := ''/v0/put/''\<rparr>) server0 staging_empty)) = 400
   \<and> handlePeerPut IsPrint_Latin1 no_faults handler0
      (request0\<lparr>URL_EscapedPath := ''/v0/put/a/b''\<rparr>) server0 staging_empty
        = (http_Error ''directories not supported'' 400, server0, staging_empty)
   \<and> handlePeerPut IsPrint_Latin1 no_faults handler0
      (request0\<lparr>URL_EscapedPath := ''/v0/put/%zz''\<rparr>) server0 staging_empty
        = (http_Error ''bad path encoding'' 400, server0, staging_empty)
   \<and> handlePeerPut IsPrint_Latin1 no_faults handler0
      (request0\<lparr>URL_EscapedPath := ''/v0/put/..''\<rparr>) server0 staging_empty
        = (http_Error ''bad filename'' 400, server0, staging_empty)"
proof -
  note defs = handler0_def request0_def server0_def backend0_def hasCapFileSharing_def
    http_Error_def HasPrefix_def Contains_single
  have bad: "\<not> snd (diskPath IsPrint_Latin1 server0 ''..'')"
    by code_simp
  have 1: "status (fst (handlePeerPut IsPrint_Latin1 no_faults (handler0\<lparr>isSelf := False\<rparr>)
      (request0\<lparr>Method := ''GET'', URL_EscapedPath := ''/v0/put/x''\<rparr>) server0 staging_empty)) = 403"
    using handlePeerPut_rejections [of "handler0\<lparr>isSelf := False\<rparr>" IsPrint_Latin1 no_faults
        "request0\<lparr>Method := ''GET'', URL_EscapedPath := ''/v0/put/x''\<rparr>" server0 staging_empty]
    by (simp add: defs)
  have 2: "status (fst (handlePeerPut IsPrint_Latin1 no_faults handler0 request0
      (server0\<lparr>b := backend0\<lparr>capFileSharing := False\<rparr>\<rparr>) staging_empty)) = 403"
    using handlePeerPut_rejections [of handler0 IsPrint_Latin1 no_faults request0
        "server0\<lparr>b := backend0\<lparr>capFileSharing := False\<rparr>\<rparr>" staging_empty]
    by (simp add: defs)
  have 3: "status (fst (handlePeerPut IsPrint_Latin1 no_faults handler0
      (request0\<lparr>Method := ''GET''\<rparr>) server0 staging_empty)) = 405"
    using handlePeerPut_rejections [of handler0 IsPrint_Latin1 no_faults
        "request0\<lparr>Method := ''GET''\<rparr>" server0 staging_empty]
    by (simp add: defs)
  have 4: "status (fst (handlePeerPut IsPrint_Latin1 no_faults handler0 request0
      (server0\<lparr>rootDir := []\<rparr>) staging_empty)) = 500"
    using handlePeerPut_rejections [of handler0 IsPrint_Latin1 no_faults request0
        "server0\<lparr>rootDir := []\<rparr>" staging_empty]
    by (simp add: defs)
  have 5: "status (fst (handlePeerPut IsPrint_Latin1 no_faults handler0
      (request0\<lparr>URL_EscapedPath := ''/v0/put%2Fx''\<rparr>) server0 staging_empty)) = 500"
    using handlePeerPut_rejections [of handler0 IsPrint_Latin1 no_faults
        "request0\<lparr>URL_EscapedPath := ''/v0/put%2Fx''\<rparr>" server0 staging_empty]
    by (simp add: defs)
  have 6: "status (fst (handlePeerPut IsPrint_Latin1 no_faults handler0
      (request0\<lparr>URL_EscapedPath := ''/v0/put/''\<rparr>) server0 staging_empty)) = 400"
    using handlePeerPut_rejections [of handler0 IsPrint_Latin1 no_faults
        "request0\<lparr>URL_EscapedPath := ''/v0/put/''\<rparr>" server0 staging_empty]
    by (simp add: defs)
  have 7: "handlePeerPut IsPrint_Latin1 no_faults handler0
      (request0\<lparr>URL_EscapedPath := ''/v0/put/a/b''\<rparr>) server0 staging_empty
        = (http_Error ''directories not supported'' 400, server0, staging_empty)"
    using handlePeerPut_rejections [of handler0 IsPrint_Latin1 no_faults
        "request0\<lparr>URL_EscapedPath := ''/v0/put/a/b''\<rparr>" server0 staging_empty]
    by (simp add: defs)
  have 8: "handlePeerPut IsPrint_Latin1 no_faults handler0
      (request0\<lparr>URL_EscapedPath := ''/v0/put/%zz''\<rparr>) server0 staging_empty
        = (http_Error ''bad path encoding'' 400, server0, staging_empty)"
    using handlePeerPut_rejections [of handler0 IsPrint_Latin1 no_faults
        "request0\<lparr>URL_EscapedPath := ''/v0/put/%zz''\<rparr>" server0 staging_empty]
    by (simp add: defs ishex_def)
  have 9: "handlePeerPut IsPrint_Latin1 no_faults handler0
      (request0\<lparr>URL_EscapedPath := ''/v0/put/..''\<rparr>) server0 staging_empty
        = (http_Error ''bad filename'' 400, server0, staging_empty)"
    using handlePeerPut_rejections [of handler0 IsPrint_Latin1 no_faults
        "request0\<lparr>URL_EscapedPath := ''/v0/put/..''\<rparr>" server0 staging_empty] bad
    by (simp add: defs)
  from 1 2 3 4 5 6 7 8 9 show ?thesis by blast
qed

subsection \<open>The staging store\<close>

lemma waiting_in_iff: "waiting_in des \<longleftrightarrow> (\<exists>de \<in> set des. IsRegular de \<and> \<not> HasSuffix (Name de) partialSuffix)"
  by (induction des) auto

lemma scan_dir_result:
  "scan_dir s f =
     (if \<exists>de \<in> set (pending f). IsRegular de \<and> \<not> HasSuffix (Name de) partialSuffix then (True, s)
      else if failure f = None \<or> failure f = Some EOF then (False, s\<lparr>knownEmpty := True\<rparr>)
      else (False, s))"
proof (induction s f rule: scan_dir.induct)
  case (1 s f)
  show ?case
  proof (cases "pending f = []")
    case True
    then show ?thesis
      by (subst scan_dir.simps) (auto simp: ReadDir_def split: option.splits)
  next
    case False
    let ?f' = "f\<lparr>pending := drop 10 (pending f)\<rparr>"
    have rd: "ReadDir 10 f = (take 10 (pending f), None, ?f')"
      using False by (simp add: ReadDir_def)
    have split: "set (pending f) = set (take 10 (pending f)) \<union> set (drop 10 (pending f))"
      by (metis append_take_drop_id set_append)
    show ?thesis
    proof (cases "waiting_in (take 10 (pending f))")
      case True
      then have "\<exists>de \<in> set (pending f). IsRegular de \<and> \<not> HasSuffix (Name de) partialSuffix"
        unfolding waiting_in_iff split by blast
      with True rd show ?thesis
        by (subst scan_dir.simps) simp
    next
      case nw: False
      have ih: "scan_dir s ?f' =
         (if \<exists>de \<in> set (pending ?f'). IsRegular de \<and> \<not> HasSuffix (Name de) partialSuffix then (True, s)
          else if failure ?f' = None \<or> failure ?f' = Some EOF then (False, s\<lparr>knownEmpty := True\<rparr>)
          else (False, s))"
        using "1.IH" [OF rd [symmetric] refl nw refl] by simp
      have "scan_dir s f = scan_dir s ?f'"
        using nw rd by (subst scan_dir.simps) simp
      moreover have "(\<exists>de \<in> set (pending f). IsRegular de \<and> \<not> HasSuffix (Name de) partialSuffix)
          \<longleftrightarrow> (\<exists>de \<in> set (pending ?f'). IsRegular de \<and> \<not> HasSuffix (Name de) partialSuffix)"
        using nw unfolding waiting_in_iff split by auto
      ultimately show ?thesis
        using ih by simp
    qed
  qed
qed

text \<open>
  Claim C7.  \<open>hasFilesWaiting\<close> answers false and leaves the server as it is when the
  staging root is unset, or the server is in direct mode, or the negative-empty cache is
  set, whatever the directory holds.  Otherwise it answers false when opening the root
  fails, and when the root opens it answers true exactly when the entries that the
  directory stream delivers hold a regular file whose name does not end in
  \<open>.partial\<close>; when nothing fails these are the entries of the root directory.
\<close>

theorem hasFilesWaiting_result:
  "(rootDir s = [] \<or> directFileMode s \<or> knownEmpty s \<longrightarrow>
      hasFilesWaiting env s files = (False, s))
   \<and> (rootDir s \<noteq> [] \<and> \<not> directFileMode s \<and> \<not> knownEmpty s \<longrightarrow>
        (\<forall>err. os_Open_dir env files (rootDir s) = Inl err \<longrightarrow>
           hasFilesWaiting env s files = (False, s))
      \<and> (\<forall>f. os_Open_dir env files (rootDir s) = Inr f \<longrightarrow>
           fst (hasFilesWaiting env s files)
             = (\<exists>de \<in> set (pending f). IsRegular de \<and> \<not> HasSuffix (Name de) ''.partial''))
      \<and> (open_fault env = None \<and> read_fault env = None
            \<and> map_of files (rootDir s) = Some Directory \<longrightarrow>
           fst (hasFilesWaiting env s files)
             = (\<exists>de \<in> set (dir_entries files (rootDir s)).
                  IsRegular de \<and> \<not> HasSuffix (Name de) ''.partial'')))"
proof (intro conjI impI allI)
  assume "rootDir s = [] \<or> directFileMode s \<or> knownEmpty s"
  then show "hasFilesWaiting env s files = (False, s)"
    by (auto simp: hasFilesWaiting_def)
next
  fix err
  assume "rootDir s \<noteq> [] \<and> \<not> directFileMode s \<and> \<not> knownEmpty s"
    and "os_Open_dir env files (rootDir s) = Inl err"
  then show "hasFilesWaiting env s files = (False, s)"
    by (simp add: hasFilesWaiting_def)
next
  fix f
  assume "rootDir s \<noteq> [] \<and> \<not> directFileMode s \<and> \<not> knownEmpty s"
    and "os_Open_dir env files (rootDir s) = Inr f"
  then have "hasFilesWaiting env s files = scan_dir s f"
    by (simp add: hasFilesWaiting_def)
  then show "fst (hasFilesWaiting env s files)
      = (\<exists>de \<in> set (pending f). IsRegular de \<and> \<not> HasSuffix (Name de) ''.partial'')"
    by (simp add: scan_dir_result partialSuffix_def)
next
  assume "rootDir s \<noteq> [] \<and> \<not> directFileMode s \<and> \<not> knownEmpty s"
    and "open_fault env = None \<and> read_fault env = None
          \<and> map_of files (rootDir s) = Some Directory"
  then have "hasFilesWaiting env s files
      = scan_dir s \<lparr>pending = dir_entries files (rootDir s), failure = None\<rparr>"
    by (simp add: hasFilesWaiting_def os_Open_dir_def)
  then show "fst (hasFilesWaiting env s files)
      = (\<exists>de \<in> set (dir_entries files (rootDir s)).
           IsRegular de \<and> \<not> HasSuffix (Name de) ''.partial'')"
    by (simp add: scan_dir_result partialSuffix_def)
qed

theorem hasFilesWaiting_result_witness:
  "fst (hasFilesWaiting no_scan_faults server0 staging_waiting)
   \<and> \<not> fst (hasFilesWaiting no_scan_faults server0 staging_partial)
   \<and> hasFilesWaiting no_scan_faults (server0\<lparr>knownEmpty := True\<rparr>) staging_waiting
        = (False, server0\<lparr>knownEmpty := True\<rparr>)
   \<and> hasFilesWaiting (no_scan_faults\<lparr>open_fault := Some EACCES\<rparr>) server0 staging_waiting
        = (False, server0)"
proof -
  have o1: "os_Open_dir no_scan_faults staging_waiting ''/tmp/x''
      = Inr \<lparr>pending = [(''a.partial'', Regular ''zz''), (''sub'', Directory),
                         (''hello.txt'', Regular ''hi'')], failure = None\<rparr>"
    by code_simp
  have o2: "os_Open_dir no_scan_faults staging_partial ''/tmp/x''
      = Inr \<lparr>pending = [(''a.partial'', Regular ''zz''), (''sub'', Directory)], failure = None\<rparr>"
    by code_simp
  have o3: "os_Open_dir (no_scan_faults\<lparr>open_fault := Some EACCES\<rparr>) staging_waiting ''/tmp/x''
      = Inl (PathError ''open'' ''/tmp/x'' EACCES)"
    by code_simp
  have e1: "\<exists>de \<in> set [(''a.partial'', Regular ''zz''), (''sub'', Directory),
                         (''hello.txt'', Regular ''hi'')].
              IsRegular de \<and> \<not> HasSuffix (Name de) ''.partial''"
    by code_simp
  have e2: "\<not> (\<exists>de \<in> set [(''a.partial'', Regular ''zz''), (''sub'', Directory)].
              IsRegular de \<and> \<not> HasSuffix (Name de) ''.partial'')"
    by code_simp
  have s0: "rootDir server0 = ''/tmp/x''" "\<not> directFileMode server0" "\<not> knownEmpty server0"
    by (simp_all add: server0_def)
  have 1: "fst (hasFilesWaiting no_scan_faults server0 staging_waiting)"
    using hasFilesWaiting_result [of server0 no_scan_faults staging_waiting] o1 e1 s0 by simp
  have 2: "\<not> fst (hasFilesWaiting no_scan_faults server0 staging_partial)"
    using hasFilesWaiting_result [of server0 no_scan_faults staging_partial] o2 e2 s0 by simp
  have 3: "hasFilesWaiting no_scan_faults (server0\<lparr>knownEmpty := True\<rparr>) staging_waiting
        = (False, server0\<lparr>knownEmpty := True\<rparr>)"
    using hasFilesWaiting_result [of "server0\<lparr>knownEmpty := True\<rparr>" no_scan_faults staging_waiting]
    by simp
  have 4: "hasFilesWaiting (no_scan_faults\<lparr>open_fault := Some EACCES\<rparr>) server0 staging_waiting
        = (False, server0)"
    using hasFilesWaiting_result [of server0 "no_scan_faults\<lparr>open_fault := Some EACCES\<rparr>" staging_waiting]
      o3 s0 by simp
  from 1 2 3 4 show ?thesis by blast
qed

text \<open>
  Claim C8.  For a base name that the gate accepts and under whose path the file system
  holds nothing, with a staging root and not in direct mode, \<open>DeleteFile\<close> succeeds
  and returns the server, its negative-empty cache included, and the file system as
  they were.
\<close>

theorem DeleteFile_absent:
  "rootDir s \<noteq> [] \<Longrightarrow> \<not> directFileMode s \<Longrightarrow> snd (diskPath IsPrint s n) \<Longrightarrow>
   map_of files (fst (diskPath IsPrint s n)) = None \<Longrightarrow>
   DeleteFile IsPrint goos within s files n = (None, s, files)"
  by (cases "diskPath IsPrint s n")
    (simp add: DeleteFile_def remove_retry.simps os_Remove_def os_IsNotExist_def)

theorem DeleteFile_absent_witness:
  "DeleteFile IsPrint_Latin1 ''linux'' [] server0 staging_waiting ''nope.txt'' = (None, server0, staging_waiting)"
proof -
  have "snd (diskPath IsPrint_Latin1 server0 ''nope.txt'')"
    and "map_of staging_waiting (fst (diskPath IsPrint_Latin1 server0 ''nope.txt'')) = None"
    by code_simp+
  moreover have "rootDir server0 \<noteq> []" "\<not> directFileMode server0"
    by (simp_all add: server0_def)
  ultimately show ?thesis
    by (rule DeleteFile_absent [rotated 2])
qed

lemma handlePeerPut_knownEmpty:
  "knownEmpty (fst (snd (handlePeerPut IsPrint env h r s files)))
     = (status (fst (handlePeerPut IsPrint env h r s files)) \<noteq> 200 \<and> knownEmpty s)"
  by (auto simp: handlePeerPut_def put_store_def put_close_def http_Error_def Let_def
      split: sum.splits prod.splits option.splits)

lemma hasFilesWaiting_knownEmpty:
  assumes "\<not> knownEmpty s" "knownEmpty (snd (hasFilesWaiting env s files))"
  shows "open_fault env = None \<and> read_fault env = None
     \<and> map_of files (rootDir s) = Some Directory
     \<and> \<not> (\<exists>de \<in> set (dir_entries files (rootDir s)).
             IsRegular de \<and> \<not> HasSuffix (Name de) ''.partial'')"
  using assms
  by (auto simp: hasFilesWaiting_def scan_dir_result partialSuffix_def os_Open_dir_def
      split: sum.splits if_splits option.splits node.splits prod.splits)

text \<open>
  Claim C5.  The negative-empty cache goes from false to true only in
  \<open>hasFilesWaiting\<close>, and only when the staging directory was observed empty: the root
  is a directory, it was read to its end without an error, and none of its entries is a
  waiting file, that is a regular file whose name does not end in \<open>.partial\<close>
  (partial files and subdirectories are not files of the store).  Neither the handler nor
  \<open>DeleteFile\<close> sets it, and \<open>OpenFile\<close> returns no server at all.  Every PUT that
  responds 200 leaves it false.
\<close>

theorem knownEmpty_transitions:
  "(\<not> knownEmpty s \<and> knownEmpty (snd (hasFilesWaiting env s files)) \<longrightarrow>
      open_fault env = None \<and> read_fault env = None
      \<and> map_of files (rootDir s) = Some Directory
      \<and> \<not> (\<exists>de \<in> set (dir_entries files (rootDir s)).
              IsRegular de \<and> \<not> HasSuffix (Name de) ''.partial''))
   \<and> (knownEmpty (fst (snd (ServeHTTP IsPrint penv h r s files'))) \<longrightarrow> knownEmpty s)
   \<and> fst (snd (DeleteFile IsPrint goos within s files' n)) = s
   \<and> (status (fst (handlePeerPut IsPrint penv h r s files')) = 200 \<longrightarrow>
        \<not> knownEmpty (fst (snd (handlePeerPut IsPrint penv h r s files'))))"
proof -
  have "fst (snd (DeleteFile IsPrint goos within s files' n)) = s"
    by (simp add: DeleteFile_def split: prod.splits)
  moreover have "knownEmpty (fst (snd (ServeHTTP IsPrint penv h r s files'))) \<longrightarrow> knownEmpty s"
    by (simp add: ServeHTTP_def handlePeerPut_knownEmpty)
  ultimately show ?thesis
    using hasFilesWaiting_knownEmpty [of s env files]
    by (simp add: handlePeerPut_knownEmpty)
qed

theorem knownEmpty_transitions_witness:
  "knownEmpty (snd (hasFilesWaiting no_scan_faults server0 staging_empty))
   \<and> knownEmpty (snd (hasFilesWaiting no_scan_faults server0 staging_partial))
   \<and> \<not> (\<exists>de \<in> set (dir_entries staging_partial ''/tmp/x'').
           IsRegular de \<and> \<not> HasSuffix (Name de) ''.partial'')
   \<and> \<not> knownEmpty (fst (snd (handlePeerPut IsPrint_Latin1 no_faults handler0 request0
                                (server0\<lparr>knownEmpty := True\<rparr>) staging_empty)))"
proof -
  have e: "knownEmpty (snd (hasFilesWaiting no_scan_faults server0 staging_empty))"
    "knownEmpty (snd (hasFilesWaiting no_scan_faults server0 staging_partial))"
    by code_simp+
  have ok: "status (fst (handlePeerPut IsPrint_Latin1 no_faults handler0 request0
                                (server0\<lparr>knownEmpty := True\<rparr>) staging_empty)) = 200"
    by code_simp
  have s0: "\<not> knownEmpty server0" "rootDir server0 = ''/tmp/x''"
    by (simp_all add: server0_def)
  from knownEmpty_transitions [of server0 no_scan_faults staging_partial IsPrint_Latin1 no_faults
      handler0 request0 staging_empty]
    knownEmpty_transitions [of "server0\<lparr>knownEmpty := True\<rparr>" no_scan_faults staging_empty IsPrint_Latin1 no_faults
      handler0 request0 staging_empty] e ok s0
  show ?thesis by simp
qed

subsection \<open>Uploads\<close>

lemma map_of_append_file:
  "map_of files path = Some (Regular c) \<Longrightarrow>
   map_of (append_file files path p) = (map_of files)(path \<mapsto> Regular (c @ p))"
  by (simp add: append_file_def update_conv')

lemma File_Write_effect:
  assumes "File_Write room files path p = (n, err, files', room')"
    and "map_of files path = Some (Regular c)"
  shows "map_of files' = (map_of files)(path \<mapsto> Regular (c @ take n p))
     \<and> n \<le> length p \<and> (err = None \<longrightarrow> n = length p)"
  using assms
  by (auto simp: File_Write_def map_of_append_file split: option.splits if_splits)

lemma incomingFile_Write_effect:
  assumes "incomingFile_Write now path (f, lb, files, room) p = (n, err, f', lb', files', room')"
    and "map_of files path = Some (Regular c)"
  shows "map_of files' = (map_of files)(path \<mapsto> Regular (c @ take n p))
     \<and> n \<le> length p \<and> (err = None \<longrightarrow> n = length p)
     \<and> name f' = name f
     \<and> (lb' = lb \<or> lb' = sendFileNotify lb)"
proof -
  obtain n0 err0 files0 room0 where fw: "File_Write room files path p = (n0, err0, files0, room0)"
    by (cases "File_Write room files path p") auto
  from assms(1) fw have eq: "n = n0" "err = err0" "files' = files0"
    and rest: "name f' = name f" "lb' = lb \<or> lb' = sendFileNotify lb"
    by (auto simp: incomingFile_Write_def Let_def split: if_splits)
  from File_Write_effect [OF fw assms(2)] eq rest show ?thesis by simp
qed

lemma io_Copy_effect:
  assumes "io_Copy path cs er (f, lb, files, room) w = (n, err, f', lb', files', room')"
    and "map_of files path = Some (Regular c)"
  shows "\<exists>k stored. k \<le> length (filter (\<lambda>x. snd x \<noteq> []) cs)
     \<and> lb' = lb\<lparr>events := events lb @ replicate k SendFileNotify\<rparr>
     \<and> name f' = name f
     \<and> map_of files' = (map_of files)(path \<mapsto> Regular (c @ stored))
     \<and> (err = None \<longrightarrow> stored = concat (map snd cs) \<and> er = None)"
  using assms
proof (induction cs arbitrary: f lb files room w c)
  case Nil
  then show ?case
    by (intro exI [of _ 0] exI [of _ "[]"]) auto
next
  case (Cons x cs)
  obtain now p where x: "x = (now, p)" by (cases x)
  show ?case
  proof (cases "p = []")
    case True
    with Cons.prems x have "io_Copy path cs er (f, lb, files, room) w = (n, err, f', lb', files', room')"
      by simp
    from Cons.IH [OF this Cons.prems(2)] obtain k stored where
      "k \<le> length (filter (\<lambda>x. snd x \<noteq> []) cs)"
      "lb' = lb\<lparr>events := events lb @ replicate k SendFileNotify\<rparr>"
      "name f' = name f"
      "map_of files' = (map_of files)(path \<mapsto> Regular (c @ stored))"
      "err = None \<longrightarrow> stored = concat (map snd cs) \<and> er = None"
      by blast
    with True x show ?thesis
      by (intro exI [of _ k] exI [of _ stored]) simp
  next
    case False
    obtain nw ew f1 lb1 files1 room1 where
      wr: "incomingFile_Write now path (f, lb, files, room) p = (nw, ew, f1, lb1, files1, room1)"
      by (cases "incomingFile_Write now path (f, lb, files, room) p") auto
    from incomingFile_Write_effect [OF wr Cons.prems(2)] have
      m1: "map_of files1 = (map_of files)(path \<mapsto> Regular (c @ take nw p))"
      and le: "nw \<le> length p" and full: "ew = None \<longrightarrow> nw = length p"
      and n1: "name f1 = name f" and l1: "lb1 = lb \<or> lb1 = sendFileNotify lb"
      by auto
    from l1 obtain k1 where k1: "k1 \<le> 1" "lb1 = lb\<lparr>events := events lb @ replicate k1 SendFileNotify\<rparr>"
    proof
      assume "lb1 = lb"
      then have "lb1 = lb\<lparr>events := events lb @ replicate 0 SendFileNotify\<rparr>" by simp
      then show ?thesis using that [of 0] by simp
    next
      assume "lb1 = sendFileNotify lb"
      then have "lb1 = lb\<lparr>events := events lb @ replicate 1 SendFileNotify\<rparr>"
        by (simp add: sendFileNotify_def)
      then show ?thesis using that [of 1] by simp
    qed
    show ?thesis
    proof (cases "ew = None \<and> length p = nw")
      case stop: False
      with Cons.prems(1) x False wr have res: "err \<noteq> None" "lb' = lb1" "f' = f1" "files' = files1"
        by (auto split: if_splits)
      show ?thesis
        using res k1 n1 m1 x False
        by (intro exI [of _ k1] exI [of _ "take nw p"]) auto
    next
      case go: True
      from False go have "0 < nw" by auto
      with go Cons.prems(1) x False wr have
        rec: "io_Copy path cs er (f1, lb1, files1, room1) (w + int nw) = (n, err, f', lb', files', room')"
        by simp
      from m1 have at: "map_of files1 path = Some (Regular (c @ take nw p))" by simp
      from Cons.IH [OF rec at] obtain k stored where
        k: "k \<le> length (filter (\<lambda>x. snd x \<noteq> []) cs)"
        and lb': "lb' = lb1\<lparr>events := events lb1 @ replicate k SendFileNotify\<rparr>"
        and nm: "name f' = name f1"
        and mp: "map_of files' = (map_of files1)(path \<mapsto> Regular ((c @ take nw p) @ stored))"
        and ok: "err = None \<longrightarrow> stored = concat (map snd cs) \<and> er = None"
        by blast
      have "lb' = lb\<lparr>events := events lb @ replicate (k1 + k) SendFileNotify\<rparr>"
        using lb' k1 by (simp add: replicate_add)
      moreover have "k1 + k \<le> length (filter (\<lambda>x. snd x \<noteq> []) (x # cs))"
        using k k1 x False by simp
      moreover have "map_of files' = (map_of files)(path \<mapsto> Regular (c @ (p @ stored)))"
        using mp m1 go by simp
      ultimately show ?thesis
        using nm n1 ok x
        by (intro exI [of _ "k1 + k"] exI [of _ "p @ stored"]) simp
    qed
  qed
qed

lemma os_Create_effect:
  "os_Create fault files path = Inr files1 \<Longrightarrow>
   map_of files1 = (map_of files)(path \<mapsto> Regular [])"
proof -
  assume "os_Create fault files path = Inr files1"
  then have "files1 = AList.update path (Regular []) files"
    by (auto simp: os_Create_def split: option.splits node.splits)
  then have "map_of files1 = map_of (AList.update path (Regular []) files)"
    by (rule arg_cong)
  also have "\<dots> = (map_of files)(path \<mapsto> Regular [])"
    by (rule update_conv')
  finally show ?thesis .
qed

lemma os_Remove_Regular:
  "map_of files path = Some (Regular c) \<Longrightarrow>
   map_of (snd (os_Remove files path)) = (map_of files)(path := None)"
  by (simp add: os_Remove_def delete_conv')

lemma diskPath_rootDir:
  "rootDir s' = rootDir s \<Longrightarrow> diskPath IsPrint s' n = diskPath IsPrint s n"
  by (simp add: diskPath_def)

lemma handlePeerPut_valid:
  assumes "isSelf h" "hasCapFileSharing (b s)" "Method r = ''PUT''" "rootDir s \<noteq> []"
    and "URL_EscapedPath r = ''/v0/put/'' @ sfx" "sfx \<noteq> []" "\<not> Contains sfx ''/''"
    and "PathUnescape sfx = Inr n" "diskPath IsPrint s n = (p, True)"
  shows "handlePeerPut IsPrint env h r s files
     = put_store env r n (if directFileMode s then p @ ''.partial'' else p) s files"
  using assms(6-9) by (simp add: handlePeerPut_suffix [OF assms(1-5)] partialSuffix_def)

lemma valid0:
  "isSelf handler0" "hasCapFileSharing (b server0)" "rootDir server0 \<noteq> []"
  "Method request0 = ''PUT''" "Method empty_request = ''PUT''" "Method dropped_request = ''PUT''"
  "URL_EscapedPath request0 = ''/v0/put/'' @ ''hello.txt''"
  "URL_EscapedPath empty_request = ''/v0/put/'' @ ''hello.txt''"
  "URL_EscapedPath dropped_request = ''/v0/put/'' @ ''hello.txt''"
  "''hello.txt'' \<noteq> []" "\<not> Contains ''hello.txt'' ''/''"
  "PathUnescape ''hello.txt'' = Inr ''hello.txt''"
  by (simp_all add: handler0_def server0_def backend0_def request0_def empty_request_def
      dropped_request_def hasCapFileSharing_def Contains_single)

lemma gate0: "diskPath IsPrint_Latin1 server0 ''hello.txt'' = (''/tmp/x/hello.txt'', True)"
  by code_simp

text \<open>
  Claim C10 says that every PUT of declared length 0 that passes the validation is
  answered with 200.  It is not when the destination cannot be created: here a directory
  stands at the destination, the answer is 500, the cache stays set and nothing is
  notified.
\<close>

theorem zero_length_put_counterexample:
  "handlePeerPut IsPrint_Latin1 no_faults handler0 empty_request
     (server0\<lparr>knownEmpty := True\<rparr>) staging_blocked
   = (http_Error ''open /tmp/x/hello.txt: is a directory'' 500,
      server0\<lparr>knownEmpty := True\<rparr>, staging_blocked)"
  by code_simp

text \<open>
  Claim C10, amended.  For a PUT of declared length 0 that passes the validation, the
  events on the backend grow by one \<open>sendFileNotify\<close> when the answer is 200 and not
  at all otherwise: no upload is registered, and in direct mode there is no notification
  of completion besides.  When \<open>os.Create\<close> and the close of the destination succeed,
  the answer is 200 with the body \<open>{}\<close> and a line feed, the destination is an empty
  regular file whatever the request body holds (nothing is copied), and the
  negative-empty cache is cleared.  When either fails the answer is 500.
\<close>

theorem zero_length_put:
  assumes "isSelf h" "hasCapFileSharing (b s)" "Method r = ''PUT''" "rootDir s \<noteq> []"
    and "URL_EscapedPath r = ''/v0/put/'' @ sfx" "sfx \<noteq> []" "\<not> Contains sfx ''/''"
    and "PathUnescape sfx = Inr n" "diskPath IsPrint s n = (p, True)"
    and "dst = (if directFileMode s then p @ ''.partial'' else p)"
    and "ContentLength r = 0"
  shows "(\<forall>files1. os_Create (create_fault env) files dst = Inr files1 \<and> close_fault env = None \<longrightarrow>
            handlePeerPut IsPrint env h r s files
              = (\<lparr>status = 200, wbody = ''{}'' @ [CHR 0x0A]\<rparr>,
                 s\<lparr>knownEmpty := False, b := (b s)\<lparr>events := events (b s) @ [SendFileNotify]\<rparr>\<rparr>,
                 files1)
            \<and> map_of files1 = (map_of files)(dst \<mapsto> Regular []))
     \<and> events (b (fst (snd (handlePeerPut IsPrint env h r s files))))
         = events (b s)
             @ (if status (fst (handlePeerPut IsPrint env h r s files)) = 200
                then [SendFileNotify] else [])
     \<and> ((\<exists>err. os_Create (create_fault env) files dst = Inl err) \<or> close_fault env \<noteq> None \<longrightarrow>
          status (fst (handlePeerPut IsPrint env h r s files)) = 500)"
proof -
  have eq: "handlePeerPut IsPrint env h r s files = put_store env r n dst s files"
    unfolding assms(10) by (rule handlePeerPut_valid [OF assms(1-9)])
  show ?thesis
    unfolding eq using assms(11)
    by (auto simp: put_store_def put_close_def sendFileNotify_def http_Error_def os_Create_effect Let_def
        split: sum.splits option.splits)
qed

theorem zero_length_put_witness:
  "handlePeerPut IsPrint_Latin1 no_faults handler0 empty_request
     (server0\<lparr>knownEmpty := True\<rparr>) staging_empty
   = (\<lparr>status = 200, wbody = ''{}'' @ [CHR 0x0A]\<rparr>,
      server0\<lparr>knownEmpty := False, b := backend0\<lparr>events := [SendFileNotify]\<rparr>\<rparr>,
      [(''/tmp/x'', Directory), (''/tmp/x/hello.txt'', Regular [])])
   \<and> handlePeerPut IsPrint_Latin1 no_faults handler0 empty_request
     (server0\<lparr>knownEmpty := True, directFileMode := True\<rparr>) staging_empty
   = (\<lparr>status = 200, wbody = ''{}'' @ [CHR 0x0A]\<rparr>,
      server0\<lparr>knownEmpty := False, directFileMode := True,
              b := backend0\<lparr>events := [SendFileNotify]\<rparr>\<rparr>,
      [(''/tmp/x'', Directory), (''/tmp/x/hello.txt.partial'', Regular [])])"
proof -
  let ?s = "server0\<lparr>knownEmpty := True\<rparr>"
  let ?d = "server0\<lparr>knownEmpty := True, directFileMode := True\<rparr>"
  have cr: "os_Create (create_fault no_faults) staging_empty ''/tmp/x/hello.txt''
      = Inr [(''/tmp/x'', Directory), (''/tmp/x/hello.txt'', Regular [])]"
    "os_Create (create_fault no_faults) staging_empty ''/tmp/x/hello.txt.partial''
      = Inr [(''/tmp/x'', Directory), (''/tmp/x/hello.txt.partial'', Regular [])]"
    by code_simp+
  have g: "diskPath IsPrint_Latin1 ?s ''hello.txt'' = (''/tmp/x/hello.txt'', True)"
    "diskPath IsPrint_Latin1 ?d ''hello.txt'' = (''/tmp/x/hello.txt'', True)"
    by code_simp+
  have v: "hasCapFileSharing (b ?s)" "rootDir ?s \<noteq> []"
    "''/tmp/x/hello.txt''
       = (if directFileMode ?s then ''/tmp/x/hello.txt'' @ ''.partial'' else ''/tmp/x/hello.txt'')"
    "ContentLength empty_request = 0" "close_fault no_faults = None"
    "hasCapFileSharing (b ?d)" "rootDir ?d \<noteq> []"
    "''/tmp/x/hello.txt.partial''
       = (if directFileMode ?d then ''/tmp/x/hello.txt'' @ ''.partial'' else ''/tmp/x/hello.txt'')"
    by (simp_all add: server0_def backend0_def hasCapFileSharing_def empty_request_def no_faults_def)
  have 1: "handlePeerPut IsPrint_Latin1 no_faults handler0 empty_request ?s staging_empty
   = (\<lparr>status = 200, wbody = ''{}'' @ [CHR 0x0A]\<rparr>,
      server0\<lparr>knownEmpty := False, b := backend0\<lparr>events := [SendFileNotify]\<rparr>\<rparr>,
      [(''/tmp/x'', Directory), (''/tmp/x/hello.txt'', Regular [])])"
    using zero_length_put [OF valid0(1) v(1) valid0(5) v(2) valid0(8) valid0(10-12) g(1) v(3) v(4),
      of no_faults staging_empty] cr(1) v(5)
    by (simp add: server0_def backend0_def)
  have 2: "handlePeerPut IsPrint_Latin1 no_faults handler0 empty_request ?d staging_empty
   = (\<lparr>status = 200, wbody = ''{}'' @ [CHR 0x0A]\<rparr>,
      server0\<lparr>knownEmpty := False, directFileMode := True,
              b := backend0\<lparr>events := [SendFileNotify]\<rparr>\<rparr>,
      [(''/tmp/x'', Directory), (''/tmp/x/hello.txt.partial'', Regular [])])"
    using zero_length_put [OF valid0(1) v(6) valid0(5) v(7) valid0(8) valid0(10-12) g(2) v(8) v(4),
      of no_faults staging_empty] cr(2) v(5)
    by (simp add: server0_def backend0_def)
  from 1 2 show ?thesis by blast
qed

text \<open>
  Claim C2 says that no notification is sent by a PUT that fails.  Here the connection
  drops after the first two bytes were written: the answer is 500, and the write of
  those bytes has notified the front-end.
\<close>

theorem failed_put_counterexample:
  "status (fst (handlePeerPut IsPrint_Latin1 no_faults handler0 dropped_request
                  server0 staging_empty)) = 500
   \<and> SendFileNotify \<in> set (events (b (fst (snd
         (handlePeerPut IsPrint_Latin1 no_faults handler0 dropped_request
            server0 staging_empty)))))"
  by code_simp

text \<open>
  Nor is a file that was at the destination before removed when it is \<open>os.Create\<close>
  that fails: the handler returns before the removal is deferred.
\<close>

lemma failed_create_keeps_file:
  "status (fst (handlePeerPut IsPrint_Latin1 (no_faults\<lparr>create_fault := Some EACCES\<rparr>) handler0
                  request0 server0 staging_waiting)) = 500
   \<and> map_of (snd (snd (handlePeerPut IsPrint_Latin1 (no_faults\<lparr>create_fault := Some EACCES\<rparr>)
                  handler0 request0 server0 staging_waiting))) ''/tmp/x/hello.txt''
       = Some (Regular ''hi'')"
  by code_simp

text \<open>
  Claim C2, amended.  A PUT that passes the validation and is not answered with 200 is
  answered with 500, and the negative-empty cache is as before.  When \<open>os.Create\<close>
  failed, the server and the file system are as before the request: nothing was created,
  nothing is removed, nothing is notified.  When the destination was created and the copy
  or the close failed, nothing is at the destination path afterwards (in direct mode the
  path with \<open>.partial\<close>) and every other path is as before; the backend has seen the
  upload join and leave the uploads in flight, and between the two only the progress
  notifications of \<open>incomingFile.Write\<close>, at most one for each part of the body that
  was written; with a declared length of 0 it has seen nothing.
\<close>

theorem failed_put:
  assumes "isSelf h" "hasCapFileSharing (b s)" "Method r = ''PUT''" "rootDir s \<noteq> []"
    and "URL_EscapedPath r = ''/v0/put/'' @ sfx" "sfx \<noteq> []" "\<not> Contains sfx ''/''"
    and "PathUnescape sfx = Inr n" "diskPath IsPrint s n = (p, True)"
    and "dst = (if directFileMode s then p @ ''.partial'' else p)"
    and run: "handlePeerPut IsPrint env h r s files = (resp, s', files')"
    and failed: "status resp \<noteq> 200"
  shows "status resp = 500 \<and> knownEmpty s' = knownEmpty s
     \<and> ((\<exists>err. os_Create (create_fault env) files dst = Inl err) \<longrightarrow> s' = s \<and> files' = files)
     \<and> ((\<exists>files1. os_Create (create_fault env) files dst = Inr files1) \<longrightarrow>
          map_of files' = (map_of files)(dst := None)
          \<and> (\<exists>k \<le> length (filter (\<lambda>c. snd c \<noteq> []) (chunks (Body r))).
                b s' = (b s)\<lparr>events := events (b s)
                  @ (if ContentLength r = 0 then []
                     else RegisterIncomingFile n True # replicate k SendFileNotify
                            @ [RegisterIncomingFile n False])\<rparr>))"
proof -
  have eq: "put_store env r n dst s files = (resp, s', files')"
    using run unfolding assms(10) handlePeerPut_valid [OF assms(1-9)] .
  show ?thesis
  proof (cases "os_Create (create_fault env) files dst")
    case (Inl err)
    with eq failed show ?thesis
      by (auto simp: put_store_def http_Error_def)
  next
    case (Inr files1)
    note m1 = os_Create_effect [OF Inr]
    then have at1: "map_of files1 dst = Some (Regular [])" by simp
    show ?thesis
    proof (cases "ContentLength r = 0")
      case True
      with eq Inr failed have "status resp = 500" "s' = s\<lparr>b := b s\<rparr>"
        "files' = snd (os_Remove files1 dst)"
        by (auto simp: put_store_def put_close_def http_Error_def Let_def split: option.splits)
      moreover have "map_of (snd (os_Remove files1 dst)) = (map_of files)(dst := None)"
        using os_Remove_Regular [OF at1] m1 by simp
      ultimately show ?thesis
        using Inr True by (intro conjI impI exI [of _ 0]) simp_all
    next
      case False
      let ?inFile = "\<lparr>name = n, size' = ContentLength r,
                      partialPath = (if directFileMode s then dst else []),
                      copied = 0, done' = False, lastNotify = None\<rparr>"
      let ?lb1 = "registerIncomingFile (b s) ?inFile True"
      obtain w err f' lb2 files2 room2 where
        cp: "io_Copy dst (chunks (Body r)) (ending (Body r)) (?inFile, ?lb1, files1, write_room env) 0
               = (w, err, f', lb2, files2, room2)"
        by (cases "io_Copy dst (chunks (Body r)) (ending (Body r))
                     (?inFile, ?lb1, files1, write_room env) 0") auto
      from io_Copy_effect [OF cp at1] obtain k stored where
        k: "k \<le> length (filter (\<lambda>x. snd x \<noteq> []) (chunks (Body r)))"
        and lb2: "lb2 = ?lb1\<lparr>events := events ?lb1 @ replicate k SendFileNotify\<rparr>"
        and nm: "name f' = n"
        and m2: "map_of files2 = (map_of files1)(dst \<mapsto> Regular ([] @ stored))"
        by auto
      from m2 have at2: "map_of files2 dst = Some (Regular stored)" by simp
      have rm: "map_of (snd (os_Remove files2 dst)) = (map_of files)(dst := None)"
        using os_Remove_Regular [OF at2] m2 m1 by simp
      have res: "status resp = 500 \<and> knownEmpty s' = knownEmpty s
          \<and> files' = snd (os_Remove files2 dst)
          \<and> b s' = registerIncomingFile lb2 f' False"
        using eq Inr False cp failed
        by (auto simp: put_store_def put_close_def http_Error_def Let_def split: option.splits)
      have "b s' = (b s)\<lparr>events := events (b s)
                  @ RegisterIncomingFile n True # replicate k SendFileNotify
                            @ [RegisterIncomingFile n False]\<rparr>"
        using res lb2 nm by (simp add: registerIncomingFile_def)
      with res rm k Inr False show ?thesis
        by auto
    qed
  qed
qed

theorem failed_put_witness:
  "status (fst (handlePeerPut IsPrint_Latin1 no_faults handler0 dropped_request
                  server0 staging_empty)) = 500
   \<and> map_of (snd (snd (handlePeerPut IsPrint_Latin1 no_faults handler0 dropped_request
                  server0 staging_empty))) ''/tmp/x/hello.txt'' = None
   \<and> \<not> knownEmpty (fst (snd (handlePeerPut IsPrint_Latin1 no_faults handler0 dropped_request
                  server0 staging_empty)))"
proof -
  let ?run = "handlePeerPut IsPrint_Latin1 no_faults handler0 dropped_request server0 staging_empty"
  have cr: "os_Create (create_fault no_faults) staging_empty ''/tmp/x/hello.txt''
      = Inr [(''/tmp/x'', Directory), (''/tmp/x/hello.txt'', Regular [])]"
    by code_simp
  have f: "status (fst ?run) \<noteq> 200"
    by code_simp
  have d: "''/tmp/x/hello.txt''
      = (if directFileMode server0 then ''/tmp/x/hello.txt'' @ ''.partial'' else ''/tmp/x/hello.txt'')"
    "\<not> knownEmpty server0"
    by (simp_all add: server0_def)
  have r: "?run = (fst ?run, fst (snd ?run), snd (snd ?run))" by simp
  from failed_put [OF valid0(1,2) valid0(6) valid0(3) valid0(9) valid0(10-12) gate0 d(1) r f] cr d(2)
  show ?thesis by simp
qed

text \<open>
  Claim C3.  Not in direct mode, with a staging root, for a peer that is \<open>isSelf\<close> and
  with file sharing enabled: when a PUT to \<open>/v0/put/\<close> followed by the encoded form
  of a name \<open>n\<close> that the gate accepts, with the body \<open>bs\<close> and a declared length
  that is the length of \<open>bs\<close> or unknown, is answered with 200, then \<open>OpenFile n\<close>
  on the resulting server and file system returns an open file that reads as \<open>bs\<close>,
  and the length of \<open>bs\<close> as its size.
\<close>

theorem put_then_open:
  assumes "isSelf h" "hasCapFileSharing (b s)" "Method r = ''PUT''" "rootDir s \<noteq> []"
    and "URL_EscapedPath r = ''/v0/put/'' @ sfx" "sfx \<noteq> []" "\<not> Contains sfx ''/''"
    and "PathUnescape sfx = Inr n" "diskPath IsPrint s n = (p, True)"
    and nd: "\<not> directFileMode s"
    and body: "concat (map snd (chunks (Body r))) = bs"
    and len: "ContentLength r = int (length bs) \<or> ContentLength r = - 1"
    and run: "handlePeerPut IsPrint env h r s files = (resp, s', files')"
    and ok: "status resp = 200"
  shows "\<exists>f. OpenFile IsPrint s' files' n = Inr (f, int (length bs)) \<and> ReadAll f = Inr bs"
proof -
  have eq: "put_store env r n p s files = (resp, s', files')"
    using run nd unfolding handlePeerPut_valid [OF assms(1-9)] by simp
  from eq ok obtain files1 where cr: "os_Create (create_fault env) files p = Inr files1"
    by (auto simp: put_store_def http_Error_def split: sum.splits)
  note m1 = os_Create_effect [OF cr]
  then have at1: "map_of files1 p = Some (Regular [])" by simp
  have "rootDir s' = rootDir s \<and> directFileMode s' = directFileMode s
      \<and> map_of files' p = Some (Regular bs)"
  proof (cases "ContentLength r = 0")
    case True
    with len have "bs = []" by auto
    with eq cr True ok at1 show ?thesis
      by (auto simp: put_store_def put_close_def http_Error_def Let_def split: option.splits)
  next
    case False
    let ?inFile = "\<lparr>name = n, size' = ContentLength r,
                    partialPath = (if directFileMode s then p else []),
                    copied = 0, done' = False, lastNotify = None\<rparr>"
    let ?lb1 = "registerIncomingFile (b s) ?inFile True"
    obtain w err f' lb2 files2 room2 where
      cp: "io_Copy p (chunks (Body r)) (ending (Body r)) (?inFile, ?lb1, files1, write_room env) 0
             = (w, err, f', lb2, files2, room2)"
      by (cases "io_Copy p (chunks (Body r)) (ending (Body r))
                   (?inFile, ?lb1, files1, write_room env) 0") auto
    have step: "(case err of
                   Some e \<Rightarrow>
                     (http_Error (error_Error e) 500,
                      s\<lparr>b := registerIncomingFile lb2 f' False\<rparr>, snd (os_Remove files2 p))
                 | None \<Rightarrow> put_close env p (Some f') s lb2 files2) = (resp, s', files')"
      using eq cr False cp nd by (simp add: put_store_def Let_def)
    have res: "err = None \<and> files' = files2 \<and> rootDir s' = rootDir s
        \<and> directFileMode s' = directFileMode s"
    proof (cases err)
      case (Some e)
      with step ok show ?thesis by (auto simp: http_Error_def)
    next
      case None
      with step have pc: "put_close env p (Some f') s lb2 files2 = (resp, s', files')" by simp
      show ?thesis
      proof (cases "close_fault env")
        case (Some e)
        with pc ok show ?thesis by (auto simp: put_close_def http_Error_def Let_def)
      next
        case cn: None
        with pc None show ?thesis by (auto simp: put_close_def Let_def)
      qed
    qed
    from io_Copy_effect [OF cp at1] res body have "map_of files2 p = Some (Regular bs)"
      by auto
    with res show ?thesis by simp
  qed
  then have st: "rootDir s' = rootDir s" "rootDir s' \<noteq> []" "\<not> directFileMode s'"
    "map_of files' p = Some (Regular bs)"
    using assms(4) nd by simp_all
  have "diskPath IsPrint s' n = (p, True)"
    using diskPath_rootDir [OF st(1)] assms(9) by simp
  with st show ?thesis
    by (simp add: OpenFile_def os_Open_def File_Stat_Size_def ReadAll_def)
qed

theorem put_then_open_witness:
  "status (fst (handlePeerPut IsPrint_Latin1 no_faults handler0 request0 server0 staging_empty)) = 200
   \<and> (\<exists>f. OpenFile IsPrint_Latin1
            (fst (snd (handlePeerPut IsPrint_Latin1 no_faults handler0 request0 server0 staging_empty)))
            (snd (snd (handlePeerPut IsPrint_Latin1 no_faults handler0 request0 server0 staging_empty)))
            ''hello.txt'' = Inr (f, 3)
          \<and> ReadAll f = Inr (''hi'' @ [CHR 0x0A]))"
proof -
  let ?run = "handlePeerPut IsPrint_Latin1 no_faults handler0 request0 server0 staging_empty"
  have ok: "status (fst ?run) = 200"
    by code_simp
  have v: "\<not> directFileMode server0"
    "concat (map snd (chunks (Body request0))) = ''hi'' @ [CHR 0x0A]"
    "ContentLength request0 = int (length (''hi'' @ [CHR 0x0A])) \<or> ContentLength request0 = - 1"
    by (simp_all add: server0_def request0_def)
  have r: "?run = (fst ?run, fst (snd ?run), snd (snd ?run))" by simp
  from put_then_open [OF valid0(1,2) valid0(4) valid0(3) valid0(7) valid0(10-12) gate0 v r ok] ok
  show ?thesis by simp
qed

subsection \<open>The greeting\<close>

lemma EscapeString_reserved: "set (EscapeString x) \<inter> {CHR ''<'', CHR ''>'', CHR 0x22, CHR 0x27} = {}"
  by (induction x) (auto simp: EscapeString_def escape_char_def)

lemma EscapeString_lt: "CHR ''<'' \<notin> set (EscapeString x)"
  using EscapeString_reserved [of x] by auto

lemma EscapeString_safe:
  "set x \<inter> {CHR ''&'', CHR ''<'', CHR ''>'', CHR 0x22, CHR 0x27} = {} \<Longrightarrow> EscapeString x = x"
  by (induction x) (auto simp: EscapeString_def escape_char_def)

lemma sublist_skip: "c \<notin> set xs \<Longrightarrow> sublist (c # ys) (xs @ zs) \<longleftrightarrow> sublist (c # ys) zs"
  by (induction xs) (auto simp: sublist_Cons_right)

lemma page_owner:
  assumes "CHR ''<'' \<notin> set who" "CHR ''<'' \<notin> set addr" "CHR ''<'' \<notin> set device"
  shows "Contains (page who addr device owner) (''<p>You are the owner of this node.'' @ [CHR 0x0A])
           \<longleftrightarrow> owner"
  using assms
  by (simp add: page_def Contains_def sublist_Cons_right sublist_skip)

lemma page_Alice:
  assumes "CHR ''<'' \<notin> set addr" "CHR ''<'' \<notin> set device"
  shows "Contains (page ''&lt;Alice&gt;'' addr device owner) ''&lt;Alice&gt;''
     \<and> \<not> Contains (page ''&lt;Alice&gt;'' addr device owner) ''<Alice>''"
  using assms
  by (simp add: page_def Contains_def sublist_Cons_right sublist_skip)

lemma greeting_page:
  "greeting h = page (EscapeString (DisplayName (peerUser h))) (remoteAddr_IP h)
                  (EscapeString (ComputedName (peerNode h))) (isSelf h)"
  by (simp add: greeting_def page_def)

text \<open>
  Claim C9 names the computed name of the local node among the values of the greeting.
  The handler writes the computed name of the node of the peer (\<open>Your device is\<close>): for
  a local node called \<open>mine\<close> and a peer node called \<open>theirs\<close> the page holds the
  second name and not the first.
\<close>

theorem greeting_counterexample:
  "Contains (wbody (fst (ServeHTTP IsPrint_Latin1 no_faults handler0
                            (request0\<lparr>Method := ''GET'', URL_Path := ''/''\<rparr>) server0 staging_empty)))
     ''Your device is theirs.''
   \<and> \<not> Contains (wbody (fst (ServeHTTP IsPrint_Latin1 no_faults handler0
                            (request0\<lparr>Method := ''GET'', URL_Path := ''/''\<rparr>) server0 staging_empty)))
         (ComputedName (selfNode server0))"
  by code_simp

text \<open>
  Claim C9, amended.  For every request whose path does not begin with \<open>/v0/put/\<close>
  the handler answers 200 and leaves the server and the file system as they are.  The
  body is the page with the display name of the peer and the computed name of the node
  of the peer, both passed through \<open>html.EscapeString\<close>, whose result holds none of
  less-than, greater-than and the two quotes; the address of the peer is written as it
  prints, and for an address that holds no character that HTML reserves (the text of an
  IP address without a zone holds none) that is its escaped form too.  The line
  \<open><p>You are the owner of this node.\<close> occurs in the body exactly when the peer is
  \<open>isSelf\<close>.  For the display name \<open><Alice>\<close> the body contains
  \<open>&lt;Alice&gt;\<close> and does not contain \<open><Alice>\<close>.
\<close>

theorem greeting_escaped:
  assumes route: "\<not> HasPrefix (URL_Path r) ''/v0/put/''"
    and addr: "set (remoteAddr_IP h) \<inter> {CHR ''&'', CHR ''<'', CHR ''>'', CHR 0x22, CHR 0x27} = {}"
  shows "ServeHTTP IsPrint env h r s files
           = (\<lparr>status = 200,
               wbody = page (EscapeString (DisplayName (peerUser h)))
                         (EscapeString (remoteAddr_IP h))
                         (EscapeString (ComputedName (peerNode h))) (isSelf h)\<rparr>, s, files)
     \<and> (\<forall>x. set (EscapeString x) \<inter> {CHR ''<'', CHR ''>'', CHR 0x22, CHR 0x27} = {})
     \<and> (Contains (wbody (fst (ServeHTTP IsPrint env h r s files)))
           (''<p>You are the owner of this node.'' @ [CHR 0x0A]) \<longleftrightarrow> isSelf h)
     \<and> (DisplayName (peerUser h) = ''<Alice>'' \<longrightarrow>
          Contains (wbody (fst (ServeHTTP IsPrint env h r s files))) ''&lt;Alice&gt;''
          \<and> \<not> Contains (wbody (fst (ServeHTTP IsPrint env h r s files))) ''<Alice>'')"
proof -
  have a: "EscapeString (remoteAddr_IP h) = remoteAddr_IP h"
    using addr by (rule EscapeString_safe)
  have lt: "CHR ''<'' \<notin> set (remoteAddr_IP h)"
    using addr by auto
  have run: "ServeHTTP IsPrint env h r s files
           = (\<lparr>status = 200,
               wbody = page (EscapeString (DisplayName (peerUser h)))
                         (EscapeString (remoteAddr_IP h))
                         (EscapeString (ComputedName (peerNode h))) (isSelf h)\<rparr>, s, files)"
    using route by (simp add: ServeHTTP_def greeting_page a)
  have own: "Contains (page (EscapeString (DisplayName (peerUser h)))
                         (EscapeString (remoteAddr_IP h))
                         (EscapeString (ComputedName (peerNode h))) (isSelf h))
               (''<p>You are the owner of this node.'' @ [CHR 0x0A]) \<longleftrightarrow> isSelf h"
    unfolding a by (rule page_owner [OF EscapeString_lt lt EscapeString_lt])
  have alice: "DisplayName (peerUser h) = ''<Alice>'' \<longrightarrow>
      Contains (page (EscapeString (DisplayName (peerUser h)))
                         (EscapeString (remoteAddr_IP h))
                         (EscapeString (ComputedName (peerNode h))) (isSelf h)) ''&lt;Alice&gt;''
      \<and> \<not> Contains (page (EscapeString (DisplayName (peerUser h)))
                         (EscapeString (remoteAddr_IP h))
                         (EscapeString (ComputedName (peerNode h))) (isSelf h)) ''<Alice>''"
  proof
    assume d: "DisplayName (peerUser h) = ''<Alice>''"
    have e: "EscapeString ''<Alice>'' = ''&lt;Alice&gt;''"
      by (simp add: EscapeString_def escape_char_def)
    show "Contains (page (EscapeString (DisplayName (peerUser h)))
                         (EscapeString (remoteAddr_IP h))
                         (EscapeString (ComputedName (peerNode h))) (isSelf h)) ''&lt;Alice&gt;''
      \<and> \<not> Contains (page (EscapeString (DisplayName (peerUser h)))
                         (EscapeString (remoteAddr_IP h))
                         (EscapeString (ComputedName (peerNode h))) (isSelf h)) ''<Alice>''"
      unfolding d e a by (rule page_Alice [OF lt EscapeString_lt])
  qed
  from run own alice EscapeString_reserved show ?thesis
    by simp
qed

theorem greeting_escaped_witness:
  "status (fst (ServeHTTP IsPrint_Latin1 no_faults handler0
                  (request0\<lparr>Method := ''GET'', URL_Path := ''/''\<rparr>) server0 staging_empty)) = 200
   \<and> Contains (wbody (fst (ServeHTTP IsPrint_Latin1 no_faults handler0
                  (request0\<lparr>Method := ''GET'', URL_Path := ''/''\<rparr>) server0 staging_empty)))
        ''&lt;Alice&gt;''
   \<and> \<not> Contains (wbody (fst (ServeHTTP IsPrint_Latin1 no_faults handler0
                  (request0\<lparr>Method := ''GET'', URL_Path := ''/''\<rparr>) server0 staging_empty)))
        ''<Alice>''
   \<and> Contains (wbody (fst (ServeHTTP IsPrint_Latin1 no_faults handler0
                  (request0\<lparr>Method := ''GET'', URL_Path := ''/''\<rparr>) server0 staging_empty)))
        (''<p>You are the owner of this node.'' @ [CHR 0x0A])
   \<and> snd (ServeHTTP IsPrint_Latin1 no_faults handler0
                  (request0\<lparr>Method := ''GET'', URL_Path := ''/''\<rparr>) server0 staging_empty)
        = (server0, staging_empty)"
proof -
  have route: "\<not> HasPrefix (URL_Path (request0\<lparr>Method := ''GET'', URL_Path := ''/''\<rparr>)) ''/v0/put/''"
    by (simp add: HasPrefix_def)
  have addr: "set (remoteAddr_IP handler0) \<inter> {CHR ''&'', CHR ''<'', CHR ''>'', CHR 0x22, CHR 0x27} = {}"
    by (simp add: handler0_def)
  have h: "DisplayName (peerUser handler0) = ''<Alice>''" "isSelf handler0"
    by (simp_all add: handler0_def)
  let ?run = "ServeHTTP IsPrint_Latin1 no_faults handler0
                  (request0\<lparr>Method := ''GET'', URL_Path := ''/''\<rparr>) server0 staging_empty"
  note t = greeting_escaped [OF route addr, of IsPrint_Latin1 no_faults server0 staging_empty]
  have 1: "status (fst ?run) = 200 \<and> snd ?run = (server0, staging_empty)"
    using t by simp
  have 2: "Contains (wbody (fst ?run)) ''&lt;Alice&gt;''
      \<and> \<not> Contains (wbody (fst ?run)) ''<Alice>''
      \<and> Contains (wbody (fst ?run)) (''<p>You are the owner of this node.'' @ [CHR 0x0A])"
    using t h by blast
  from 1 2 show ?thesis by blast
qed

end
